theory Spec2Isabelle
  imports Main
begin

section \<open>Go strings\<close>

text \<open>
  A Go \<^verbatim>\<open>string\<close> is a sequence of bytes, modelled as \<^typ>\<open>string\<close>. The
  functions of package \<^verbatim>\<open>strings\<close> that the import pipeline calls are written out
  here. White space is what \<^verbatim>\<open>unicode.IsSpace\<close> accepts, given by the UTF-8 encoding
  of each such code point. \<^verbatim>\<open>strings.ToLower\<close> lowers the ASCII letters and the two
  other code points whose lower case is an ASCII letter, U+0130 (to \<^verbatim>\<open>i\<close>) and U+212A
  (to \<^verbatim>\<open>k\<close>); every other byte is kept. The program only compares lower-cased text
  with ASCII text (column names, file extensions, addresses that matched the ASCII
  pattern), and whether the result equals an ASCII text is the same as in Go.
\<close>

definition spaceRunes :: "string list" where
  "spaceRunes =
     [[CHR 0x09], [CHR 0x0A], [CHR 0x0B], [CHR 0x0C], [CHR 0x0D], [CHR 0x20],
      [CHR 0xC2, CHR 0x85], [CHR 0xC2, CHR 0xA0],
      [CHR 0xE1, CHR 0x9A, CHR 0x80],
      [CHR 0xE2, CHR 0x80, CHR 0x80], [CHR 0xE2, CHR 0x80, CHR 0x81],
      [CHR 0xE2, CHR 0x80, CHR 0x82], [CHR 0xE2, CHR 0x80, CHR 0x83],
      [CHR 0xE2, CHR 0x80, CHR 0x84], [CHR 0xE2, CHR 0x80, CHR 0x85],
      [CHR 0xE2, CHR 0x80, CHR 0x86], [CHR 0xE2, CHR 0x80, CHR 0x87],
      [CHR 0xE2, CHR 0x80, CHR 0x88], [CHR 0xE2, CHR 0x80, CHR 0x89],
      [CHR 0xE2, CHR 0x80, CHR 0x8A],
      [CHR 0xE2, CHR 0x80, CHR 0xA8], [CHR 0xE2, CHR 0x80, CHR 0xA9],
      [CHR 0xE2, CHR 0x80, CHR 0xAF], [CHR 0xE2, CHR 0x81, CHR 0x9F],
      [CHR 0xE3, CHR 0x80, CHR 0x80]]"

definition HasPrefix :: "string \<Rightarrow> string \<Rightarrow> bool" where
  "HasPrefix s p = (length p \<le> length s \<and> take (length p) s = p)"

definition leadingRune :: "string list \<Rightarrow> string \<Rightarrow> nat" where
  "leadingRune rs s =
     (case List.find (\<lambda>p. p \<noteq> [] \<and> HasPrefix s p) rs of
        Some p \<Rightarrow> length p
      | None \<Rightarrow> 0)"

lemma leadingRune_le: "leadingRune rs s \<le> length s"
  by (auto simp: leadingRune_def HasPrefix_def find_Some_iff split: option.splits)

lemma leadingRune_decreases:
  "0 < leadingRune rs s \<Longrightarrow> length s - leadingRune rs s < length s"
  using leadingRune_le [of rs s] by arith

function trimRunes :: "string list \<Rightarrow> string \<Rightarrow> string" where
  "trimRunes rs s =
     (if leadingRune rs s = 0 then s else trimRunes rs (drop (leadingRune rs s) s))"
  by pat_completeness auto
termination
  by (relation "measure (\<lambda>(rs, s). length s)") (auto intro: leadingRune_decreases)

declare trimRunes.simps [simp del]

definition TrimLeft :: "string \<Rightarrow> string" where
  "TrimLeft s = trimRunes spaceRunes s"

definition TrimRight :: "string \<Rightarrow> string" where
  "TrimRight s = rev (trimRunes (map rev spaceRunes) (rev s))"

definition TrimSpace :: "string \<Rightarrow> string" where
  "TrimSpace s = TrimRight (TrimLeft s)"

definition toLowerChar :: "char \<Rightarrow> char" where
  "toLowerChar c =
     (case map_of (zip ''ABCDEFGHIJKLMNOPQRSTUVWXYZ'' ''abcdefghijklmnopqrstuvwxyz'') c of
        Some l \<Rightarrow> l
      | None \<Rightarrow> c)"

fun ToLower :: "string \<Rightarrow> string" where
  "ToLower (a # b # c # rest) =
     (if a = CHR 0xE2 \<and> b = CHR 0x84 \<and> c = CHR 0xAA then CHR ''k'' # ToLower rest
      else if a = CHR 0xC4 \<and> b = CHR 0xB0 then CHR ''i'' # ToLower (c # rest)
      else toLowerChar a # ToLower (b # c # rest))"
| "ToLower [a, b] =
     (if a = CHR 0xC4 \<and> b = CHR 0xB0 then [CHR ''i''] else [toLowerChar a, toLowerChar b])"
| "ToLower [a] = [toLowerChar a]"
| "ToLower [] = []"

function fieldsCount :: "bool \<Rightarrow> string \<Rightarrow> nat" where
  "fieldsCount inField s =
     (if s = [] then 0
      else if leadingRune spaceRunes s \<noteq> 0
        then fieldsCount False (drop (leadingRune spaceRunes s) s)
        else (if inField then 0 else 1) + fieldsCount True (tl s))"
  by pat_completeness auto
termination
  by (relation "measure (\<lambda>(inField, s). length s)") (auto intro: leadingRune_decreases)

declare fieldsCount.simps [simp del]

definition Fields_len :: "string \<Rightarrow> nat" where
  "Fields_len s = fieldsCount False s"

definition digitChar :: "nat \<Rightarrow> char" where
  "digitChar d = ''0123456789'' ! d"

function itoa :: "nat \<Rightarrow> string" where
  "itoa n = (if n < 10 then [digitChar n] else itoa (n div 10) @ [digitChar (n mod 10)])"
  by pat_completeness auto
termination
  by (relation "measure id") auto

declare itoa.simps [simp del]

section \<open>Record validation\<close>

subsection \<open>Formats\<close>

definition isDigit :: "char \<Rightarrow> bool" where
  "isDigit c = (c \<in> set ''0123456789'')"

definition isLower :: "char \<Rightarrow> bool" where
  "isLower c = (c \<in> set ''abcdefghijklmnopqrstuvwxyz'')"

definition isUpper :: "char \<Rightarrow> bool" where
  "isUpper c = (c \<in> set ''ABCDEFGHIJKLMNOPQRSTUVWXYZ'')"

definition isLetter :: "char \<Rightarrow> bool" where
  "isLetter c = (isLower c \<or> isUpper c)"

definition isHex :: "char \<Rightarrow> bool" where
  "isHex c = (c \<in> set ''0123456789abcdefABCDEF'')"

text \<open>
  \<^verbatim>\<open>emailRegex\<close> is \<^verbatim>\<open>^[a-zA-Z0-9._%+-]+@[a-zA-Z0-9.-]+\.[a-zA-Z]{2,}$\<close>. The local
  part is the longest prefix of local characters and must be followed by the at sign;
  since the last group holds no dot, it is what follows the last dot of the domain.
\<close>

definition emailLocalChar :: "char \<Rightarrow> bool" where
  "emailLocalChar c = (isLetter c \<or> isDigit c \<or> c \<in> set ''._%+-'')"

definition emailDomainChar :: "char \<Rightarrow> bool" where
  "emailDomainChar c = (isLetter c \<or> isDigit c \<or> c \<in> set ''.-'')"

definition matchDomain :: "string \<Rightarrow> bool" where
  "matchDomain d =
     (let tld = rev (takeWhile (\<lambda>c. c \<noteq> CHR ''.'') (rev d));
          front = rev (dropWhile (\<lambda>c. c \<noteq> CHR ''.'') (rev d))
      in list_all emailDomainChar d \<and> 2 \<le> length front \<and>
         list_all isLetter tld \<and> 2 \<le> length tld)"

definition emailRegex :: "string \<Rightarrow> bool" where
  "emailRegex s =
     (let local = takeWhile emailLocalChar s; rest = dropWhile emailLocalChar s
      in local \<noteq> [] \<and> rest \<noteq> [] \<and> hd rest = CHR ''@'' \<and> matchDomain (tl rest))"

text \<open>
  \<^verbatim>\<open>slugRegex\<close> is \<^verbatim>\<open>^[a-z0-9]+(?:-[a-z0-9]+)*$\<close>: the flag says whether the
  character just read was a lower-case letter or a digit, the only place where a hyphen
  or the end of the text may follow.
\<close>

fun slugFrom :: "bool \<Rightarrow> string \<Rightarrow> bool" where
  "slugFrom prev [] = prev"
| "slugFrom prev (c # cs) =
     (if isLower c \<or> isDigit c then slugFrom True cs
      else if c = CHR ''-'' \<and> prev then slugFrom False cs
      else False)"

definition slugRegex :: "string \<Rightarrow> bool" where
  "slugRegex s = slugFrom False s"

text \<open>
  Modelled from the spec: \<^verbatim>\<open>uuid.Parse\<close> of the package \<^verbatim>\<open>github.com/google/uuid\<close>,
  which \<^verbatim>\<open>isValidUUID\<close> calls, is no part of the repository. The spec gives the
  format: canonical 8-4-4-4-12 hexadecimal, case-insensitive.
\<close>

definition isValidUUID :: "string \<Rightarrow> bool" where
  "isValidUUID s =
     (length s = 36 \<and>
      list_all (\<lambda>i. if i \<in> set [8, 13, 18, 23] then s ! i = CHR ''-'' else isHex (s ! i))
        [0..<36])"

text \<open>
  Modelled from the spec: \<^verbatim>\<open>time.Parse\<close> with the layout \<^verbatim>\<open>time.RFC3339\<close> is the
  Go library's. The spec gives the rule: parseable as an instant with offset. The
  model is the date-time of RFC 3339: a full date, \<^verbatim>\<open>T\<close>, a time of day with an
  optional fraction of a second, and \<^verbatim>\<open>Z\<close> or a numeric offset.
\<close>

definition num2 :: "string \<Rightarrow> nat" where
  "num2 s = 10 * (of_char (s ! 0) - 48) + (of_char (s ! 1) - 48)"

definition num4 :: "string \<Rightarrow> nat" where
  "num4 s = 100 * num2 (take 2 s) + num2 (drop 2 s)"

definition daysIn :: "nat \<Rightarrow> nat \<Rightarrow> nat" where
  "daysIn y m =
     (if m = 2 then (if y mod 4 = 0 \<and> (y mod 100 \<noteq> 0 \<or> y mod 400 = 0) then 29 else 28)
      else if m \<in> set [4, 6, 9, 11] then 30 else 31)"

definition validOffset :: "string \<Rightarrow> bool" where
  "validOffset z =
     (z = ''Z'' \<or>
      (length z = 6 \<and> z ! 0 \<in> set ''+-'' \<and> z ! 3 = CHR '':'' \<and>
       list_all isDigit (take 2 (drop 1 z)) \<and> list_all isDigit (drop 4 z) \<and>
       num2 (take 2 (drop 1 z)) < 24 \<and> num2 (drop 4 z) < 60))"

definition parseRFC3339 :: "string \<Rightarrow> bool" where
  "parseRFC3339 s =
     (19 < length s \<and>
      list_all (\<lambda>i. isDigit (s ! i)) [0, 1, 2, 3, 5, 6, 8, 9, 11, 12, 14, 15, 17, 18] \<and>
      s ! 4 = CHR ''-'' \<and> s ! 7 = CHR ''-'' \<and> s ! 10 = CHR ''T'' \<and>
      s ! 13 = CHR '':'' \<and> s ! 16 = CHR '':'' \<and>
      (let y = num4 (take 4 s); m = num2 (take 2 (drop 5 s)); d = num2 (take 2 (drop 8 s));
           hh = num2 (take 2 (drop 11 s)); mi = num2 (take 2 (drop 14 s));
           ss = num2 (take 2 (drop 17 s)); rest = drop 19 s;
           frac = (if rest \<noteq> [] \<and> hd rest = CHR ''.'' then takeWhile isDigit (tl rest) else []);
           zone = (if rest \<noteq> [] \<and> hd rest = CHR ''.'' then dropWhile isDigit (tl rest) else rest)
       in 1 \<le> m \<and> m \<le> 12 \<and> 1 \<le> d \<and> d \<le> daysIn y m \<and> hh < 24 \<and> mi < 60 \<and> ss < 60 \<and>
          (if rest \<noteq> [] \<and> hd rest = CHR ''.'' then frac \<noteq> [] else True) \<and>
          validOffset zone))"

subsection \<open>The validator\<close>

record ValidationError =
  Field :: string
  Message :: string
  Value :: "string option"

definition mkError :: "string \<Rightarrow> string \<Rightarrow> string option \<Rightarrow> ValidationError" where
  "mkError f m v = \<lparr>Field = f, Message = m, Value = v\<rparr>"

definition errorsOn :: "string \<Rightarrow> ValidationError list \<Rightarrow> ValidationError list" where
  "errorsOn f errs = filter (\<lambda>e. Field e = f) errs"

record Validator =
  userEmailCache :: "string set"
  articleSlugCache :: "string set"
  userIDCache :: "string set"
  articleIDCache :: "string set"

definition NewValidator :: Validator where
  "NewValidator =
     \<lparr>userEmailCache = {}, articleSlugCache = {}, userIDCache = {}, articleIDCache = {}\<rparr>"

definition SetUserIDCache :: "Validator \<Rightarrow> string list \<Rightarrow> Validator" where
  "SetUserIDCache v ids = fold (\<lambda>x v'. v'\<lparr>userIDCache := insert x (userIDCache v')\<rparr>) ids v"

definition SetArticleIDCache :: "Validator \<Rightarrow> string list \<Rightarrow> Validator" where
  "SetArticleIDCache v ids =
     fold (\<lambda>x v'. v'\<lparr>articleIDCache := insert x (articleIDCache v')\<rparr>) ids v"

definition AddUserEmail :: "Validator \<Rightarrow> string \<Rightarrow> Validator" where
  "AddUserEmail v email = v\<lparr>userEmailCache := insert (ToLower email) (userEmailCache v)\<rparr>"

definition AddArticleSlug :: "Validator \<Rightarrow> string \<Rightarrow> Validator" where
  "AddArticleSlug v slug = v\<lparr>articleSlugCache := insert slug (articleSlugCache v)\<rparr>"

definition AddUserID :: "Validator \<Rightarrow> string \<Rightarrow> Validator" where
  "AddUserID v x = v\<lparr>userIDCache := insert x (userIDCache v)\<rparr>"

definition AddArticleID :: "Validator \<Rightarrow> string \<Rightarrow> Validator" where
  "AddArticleID v x = v\<lparr>articleIDCache := insert x (articleIDCache v)\<rparr>"

record UserCSV =
  csv_ID :: string
  csv_Email :: string
  csv_Name :: string
  csv_Role :: string
  csv_Active :: string
  csv_CreatedAt :: string
  csv_UpdatedAt :: string

record ArticleNDJSON =
  art_ID :: string
  art_Slug :: string
  art_Title :: string
  art_Body :: string
  art_AuthorID :: string
  art_Tags :: "string list"
  art_Status :: string
  art_PublishedAt :: string

record CommentNDJSON =
  cm_ID :: string
  cm_ArticleID :: string
  cm_UserID :: string
  cm_Body :: string
  cm_CreatedAt :: string

definition ValidRoles :: "string \<Rightarrow> bool" where
  "ValidRoles r = (r \<in> set [''admin'', ''editor'', ''viewer''])"

definition ValidStatuses :: "string \<Rightarrow> bool" where
  "ValidStatuses st = (st \<in> set [''draft'', ''published''])"

definition MaxCommentWords :: nat where
  "MaxCommentWords = 500"

text \<open>
  Each check of the source appends to \<^verbatim>\<open>errors\<close>; the model concatenates the lists
  the checks give, in the order of the source. The line number is a parameter the
  source does not read.
\<close>

definition ValidateUser :: "Validator \<Rightarrow> UserCSV \<Rightarrow> int \<Rightarrow> ValidationError list" where
  "ValidateUser v user lineNum =
     (if csv_ID user = [] then [mkError ''id'' ''id is required'' None]
      else if \<not> isValidUUID (csv_ID user)
        then [mkError ''id'' ''invalid UUID format'' (Some (csv_ID user))]
      else []) @
     (if csv_Email user = [] then [mkError ''email'' ''email is required'' None]
      else if \<not> emailRegex (csv_Email user)
        then [mkError ''email'' ''invalid email format'' (Some (csv_Email user))]
      else if ToLower (csv_Email user) \<in> userEmailCache v
        then [mkError ''email'' ''duplicate email'' (Some (csv_Email user))]
      else []) @
     (if csv_Name user = [] then [mkError ''name'' ''name is required'' None] else []) @
     (if csv_Role user = [] then [mkError ''role'' ''role is required'' None]
      else if \<not> ValidRoles (csv_Role user)
        then [mkError ''role'' ''invalid role, must be one of: admin, editor, viewer''
                (Some (csv_Role user))]
      else []) @
     (if csv_Active user \<noteq> [] \<and> csv_Active user \<noteq> ''true'' \<and> csv_Active user \<noteq> ''false''
        then [mkError ''active''
                (''active must be '' @ [CHR 0x27] @ ''true'' @ [CHR 0x27] @ '' or '' @
                 [CHR 0x27] @ ''false'' @ [CHR 0x27])
                (Some (csv_Active user))]
      else []) @
     (if csv_CreatedAt user = [] then [mkError ''created_at'' ''created_at is required'' None]
      else if \<not> parseRFC3339 (csv_CreatedAt user)
        then [mkError ''created_at'' ''invalid ISO 8601 date format'' (Some (csv_CreatedAt user))]
      else [])"

definition ValidateArticle :: "Validator \<Rightarrow> ArticleNDJSON \<Rightarrow> int \<Rightarrow> ValidationError list" where
  "ValidateArticle v article lineNum =
     (if art_ID article = [] then [mkError ''id'' ''id is required'' None]
      else if \<not> isValidUUID (art_ID article)
        then [mkError ''id'' ''invalid UUID format'' (Some (art_ID article))]
      else []) @
     (if art_Slug article = [] then [mkError ''slug'' ''slug is required'' None]
      else if \<not> slugRegex (art_Slug article)
        then [mkError ''slug''
                ''slug must be kebab-case (lowercase letters, numbers, hyphens)''
                (Some (art_Slug article))]
      else if art_Slug article \<in> articleSlugCache v
        then [mkError ''slug'' ''duplicate slug'' (Some (art_Slug article))]
      else []) @
     (if art_Title article = [] then [mkError ''title'' ''title is required'' None] else []) @
     (if art_Body article = [] then [mkError ''body'' ''body is required'' None] else []) @
     (if art_AuthorID article = [] then [mkError ''author_id'' ''author_id is required'' None]
      else if \<not> isValidUUID (art_AuthorID article)
        then [mkError ''author_id'' ''invalid UUID format'' (Some (art_AuthorID article))]
      else if userIDCache v \<noteq> {} \<and> art_AuthorID article \<notin> userIDCache v
        then [mkError ''author_id'' ''referenced user does not exist''
                (Some (art_AuthorID article))]
      else []) @
     (if art_Status article \<noteq> [] \<and> \<not> ValidStatuses (art_Status article)
        then [mkError ''status'' ''invalid status, must be one of: draft, published''
                (Some (art_Status article))]
      else []) @
     (if art_Status article = ''draft'' \<and> art_PublishedAt article \<noteq> []
        then [mkError ''published_at'' ''draft articles must not have published_at'' None]
      else []) @
     (if art_PublishedAt article \<noteq> []
        then (if \<not> parseRFC3339 (art_PublishedAt article)
              then [mkError ''published_at'' ''invalid ISO 8601 date format''
                      (Some (art_PublishedAt article))]
              else [])
      else [])"

definition ValidateComment :: "Validator \<Rightarrow> CommentNDJSON \<Rightarrow> int \<Rightarrow> ValidationError list" where
  "ValidateComment v comment lineNum =
     (if cm_ID comment = [] then [mkError ''id'' ''id is required'' None]
      else if \<not> isValidUUID (cm_ID comment) \<and> \<not> HasPrefix (cm_ID comment) ''cm_''
        then [mkError ''id'' ''invalid ID format'' (Some (cm_ID comment))]
      else []) @
     (if cm_ArticleID comment = [] then [mkError ''article_id'' ''article_id is required'' None]
      else if \<not> isValidUUID (cm_ArticleID comment)
        then [mkError ''article_id'' ''invalid UUID format'' (Some (cm_ArticleID comment))]
      else if articleIDCache v \<noteq> {} \<and> cm_ArticleID comment \<notin> articleIDCache v
        then [mkError ''article_id'' ''referenced article does not exist''
                (Some (cm_ArticleID comment))]
      else []) @
     (if cm_UserID comment = [] then [mkError ''user_id'' ''user_id is required'' None]
      else if \<not> isValidUUID (cm_UserID comment)
        then [mkError ''user_id'' ''invalid UUID format'' (Some (cm_UserID comment))]
      else if userIDCache v \<noteq> {} \<and> cm_UserID comment \<notin> userIDCache v
        then [mkError ''user_id'' ''referenced user does not exist'' (Some (cm_UserID comment))]
      else []) @
     (if cm_Body comment = [] then [mkError ''body'' ''body is required'' None]
      else if MaxCommentWords < Fields_len (cm_Body comment)
        then [mkError ''body''
                (''body exceeds maximum of '' @ itoa MaxCommentWords @ '' words (has '' @
                 itoa (Fields_len (cm_Body comment)) @ '')'')
                None]
      else []) @
     (if cm_CreatedAt comment = [] then [mkError ''created_at'' ''created_at is required'' None]
      else if \<not> parseRFC3339 (cm_CreatedAt comment)
        then [mkError ''created_at'' ''invalid ISO 8601 date format''
                (Some (cm_CreatedAt comment))]
      else [])"

section \<open>Foreign-key caches\<close>

text \<open>
  \<^verbatim>\<open>processArticlesNDJSON\<close> and \<^verbatim>\<open>processCommentsNDJSON\<close> build a fresh validator
  and load the ids that \<^verbatim>\<open>GetAllIDs\<close> returned; its error is dropped by the source
  (\<^verbatim>\<open>userIDs, _ := ...\<close>), so only the list is a parameter.
\<close>

definition articlesValidator :: "string list \<Rightarrow> Validator" where
  "articlesValidator userIDs =
     (if int (length userIDs) < 100000 then SetUserIDCache NewValidator userIDs
      else NewValidator)"

definition commentsValidator :: "string list \<Rightarrow> string list \<Rightarrow> Validator" where
  "commentsValidator userIDs articleIDs =
     (let v = (if int (length userIDs) < 100000 then SetUserIDCache NewValidator userIDs
               else NewValidator)
      in if int (length articleIDs) < 100000 then SetArticleIDCache v articleIDs else v)"



section \<open>Repositories\<close>

text \<open>
  The three \<^verbatim>\<open>BatchInsert\<close> methods (users, articles, comments) are the same
  code up to the columns of the row. What the database driver answers is an input: whether
  \<^verbatim>\<open>BeginTx\<close>, \<^verbatim>\<open>PrepareContext\<close>, the final \<^verbatim>\<open>ExecContext\<close> that runs the
  COPY and \<^verbatim>\<open>Commit\<close> fail, and which per-row \<^verbatim>\<open>ExecContext\<close> calls fail. The
  table holds the committed rows; a transaction that is not committed is rolled back by
  the deferred \<^verbatim>\<open>Rollback\<close> and leaves the table as it was.

  The statement is a \<^verbatim>\<open>pq.CopyIn\<close> statement. A per-row call only hands the row to
  the open COPY; it fails when the statement, the connection or the context is already
  broken, and the final call, which runs the COPY, then fails as well. So the COPY
  fails when the driver says so or when a per-row call has failed. The README of the
  repository says the same of the protocol: COPY is all-or-nothing per batch.
\<close>

datatype error =
  ErrBegin | ErrPrepare | ErrCopy | ErrCommit | ErrOpen | ErrHeader | ErrScanner
  | ErrContextCanceled | ErrUnknownResource | ErrUniqueViolation | ErrQuery

record Driver =
  beginFails :: bool
  prepareFails :: bool
  rowFails :: "nat \<Rightarrow> bool"
  copyFails :: bool
  commitFails :: bool
  queryFails :: bool

fun acceptedRows :: "(nat \<Rightarrow> bool) \<Rightarrow> nat \<Rightarrow> 'r list \<Rightarrow> 'r list" where
  "acceptedRows fails i [] = []"
| "acceptedRows fails i (r # rs) =
     (if fails i then acceptedRows fails (Suc i) rs else r # acceptedRows fails (Suc i) rs)"

definition copyBroken :: "Driver \<Rightarrow> nat \<Rightarrow> bool" where
  "copyBroken db n = (copyFails db \<or> list_ex (rowFails db) [0..<n])"

definition BatchInsert :: "Driver \<Rightarrow> 'r list \<Rightarrow> 'r list \<Rightarrow> (int \<times> error option) \<times> 'r list" where
  "BatchInsert db table rows =
     (if rows = [] then ((0, None), table)
      else if beginFails db then ((0, Some ErrBegin), table)
      else if prepareFails db then ((0, Some ErrPrepare), table)
      else
        let staged = acceptedRows (rowFails db) 0 rows;
            inserted = int (length staged)
        in if copyBroken db (length rows) then ((0, Some ErrCopy), table)
           else if commitFails db then ((0, Some ErrCommit), table)
           else ((inserted, None), table @ staged))"

definition healthy :: Driver where
  "healthy = \<lparr>beginFails = False, prepareFails = False, rowFails = (\<lambda>i. False),
              copyFails = False, commitFails = False, queryFails = False\<rparr>"

section \<open>CSV field lookup\<close>

text \<open>
  \<^verbatim>\<open>processUsersCSV\<close> reads the header row and records, for each column name
  (trimmed, lower-cased), the index of the column; a later column of the same name
  overwrites an earlier one. Indices are Go \<^verbatim>\<open>int\<close>s. Indexing a slice out of
  range panics in Go, so the slice read is a function that can fail.
\<close>

datatype go_panic = IndexOutOfRange

definition index_slice :: "'a list \<Rightarrow> int \<Rightarrow> go_panic + 'a" where
  "index_slice xs i =
     (if 0 \<le> i \<and> i < int (length xs) then Inr (xs ! nat i) else Inl IndexOutOfRange)"

fun rangeHeader :: "int \<Rightarrow> string list \<Rightarrow> (string \<rightharpoonup> int) \<Rightarrow> (string \<rightharpoonup> int)" where
  "rangeHeader i [] m = m"
| "rangeHeader i (h # hs) m = rangeHeader (i + 1) hs (m(ToLower (TrimSpace h) \<mapsto> i))"

definition makeHeaderMap :: "string list \<Rightarrow> (string \<rightharpoonup> int)" where
  "makeHeaderMap header = rangeHeader 0 header Map.empty"

text \<open>
  In the words of the claim about the lookup: the column that is present in the header
  under a name is the column whose trimmed, lower-cased header cell is that name, the
  last one when several have it.
\<close>

definition columnIndex :: "string list \<Rightarrow> string \<Rightarrow> nat option" where
  "columnIndex header field =
     (case filter (\<lambda>i. ToLower (TrimSpace (header ! i)) = field) (rev [0..<length header]) of
        [] \<Rightarrow> None
      | i # _ \<Rightarrow> Some i)"

definition getField :: "string list \<Rightarrow> (string \<rightharpoonup> int) \<Rightarrow> string \<Rightarrow> go_panic + string" where
  "getField record headerMap field =
     (case headerMap field of
        Some idx \<Rightarrow>
          if idx < int (length record)
          then (case index_slice record idx of
                  Inl p \<Rightarrow> Inl p
                | Inr cell \<Rightarrow> Inr (TrimSpace cell))
          else Inr ''''
      | None \<Rightarrow> Inr '''')"

section \<open>Jobs and stored records\<close>

datatype JobStatus =
  JobStatusPending | JobStatusProcessing | JobStatusCompleted | JobStatusFailed
  | JobStatusCancelled

datatype JobType = JobTypeImport | JobTypeExport

record Job =
  job_ID :: string
  job_Type :: JobType
  Resource :: string
  Status :: JobStatus
  IdempotencyKey :: string
  TotalRecords :: int
  ProcessedCount :: int
  SuccessfulCount :: int
  FailedCount :: int
  FilePath :: string

text \<open>
  \<^verbatim>\<open>models.ValidationError\<close> is a validation error with the line it was found on. A
  parsed instant is kept as the text it was parsed from; \<^verbatim>\<open>None\<close> is the zero time
  that \<^verbatim>\<open>time.Parse\<close> returns with an error. The time stamps that the source reads
  from the clock are left out of the stored records.
\<close>

record LineError = ValidationError +
  Line :: int

definition atLine :: "int \<Rightarrow> ValidationError \<Rightarrow> LineError" where
  "atLine n e = \<lparr>Field = Field e, Message = Message e, Value = Value e, Line = n\<rparr>"

definition parseTime :: "string \<Rightarrow> string option" where
  "parseTime s = (if parseRFC3339 s then Some s else None)"

record User =
  usr_ID :: string
  usr_Email :: string
  usr_Name :: string
  usr_Role :: string
  usr_Active :: bool
  usr_CreatedAt :: "string option"

record Article =
  a_ID :: string
  a_Slug :: string
  a_Title :: string
  a_Body :: string
  a_AuthorID :: string
  a_Tags :: "string list"
  a_Status :: string
  a_PublishedAt :: "string option option"

record Comment =
  c_ID :: string
  c_ArticleID :: string
  c_UserID :: string
  c_Body :: string
  c_CreatedAt :: "string option"

definition convertCSVToUser :: "UserCSV \<Rightarrow> User" where
  "convertCSVToUser csv =
     \<lparr>usr_ID = csv_ID csv, usr_Email = csv_Email csv, usr_Name = csv_Name csv,
      usr_Role = csv_Role csv, usr_Active = (csv_Active csv = ''true''),
      usr_CreatedAt = parseTime (csv_CreatedAt csv)\<rparr>"

definition convertNDJSONToArticle :: "ArticleNDJSON \<Rightarrow> Article" where
  "convertNDJSONToArticle ndjson =
     \<lparr>a_ID = art_ID ndjson, a_Slug = art_Slug ndjson, a_Title = art_Title ndjson,
      a_Body = art_Body ndjson, a_AuthorID = art_AuthorID ndjson, a_Tags = art_Tags ndjson,
      a_Status = (if art_Status ndjson = [] then ''draft'' else art_Status ndjson),
      a_PublishedAt =
        (if art_PublishedAt ndjson \<noteq> [] then Some (parseTime (art_PublishedAt ndjson))
         else None)\<rparr>"

definition convertNDJSONToComment :: "CommentNDJSON \<Rightarrow> Comment" where
  "convertNDJSONToComment ndjson =
     \<lparr>c_ID = cm_ID ndjson, c_ArticleID = cm_ArticleID ndjson, c_UserID = cm_UserID ndjson,
      c_Body = cm_Body ndjson, c_CreatedAt = parseTime (cm_CreatedAt ndjson)\<rparr>"

section \<open>Import pipeline\<close>

text \<open>
  The pipeline reaches the database through the repository interfaces, so the model
  takes the repository methods as functions on a state of the outside world \<open>'w\<close>.
  Whether the context is done when the pipeline looks at it on line \<open>n\<close> is the
  function \<open>ctxDone\<close>.
\<close>

record 'w Repos =
  User_BatchInsert :: "'w \<Rightarrow> User list \<Rightarrow> (int \<times> error option) \<times> 'w"
  Article_BatchInsert :: "'w \<Rightarrow> Article list \<Rightarrow> (int \<times> error option) \<times> 'w"
  Comment_BatchInsert :: "'w \<Rightarrow> Comment list \<Rightarrow> (int \<times> error option) \<times> 'w"
  Job_AddErrors :: "'w \<Rightarrow> string \<Rightarrow> LineError list \<Rightarrow> error option \<times> 'w"
  User_GetAllIDs :: "'w \<Rightarrow> string list"
  Article_GetAllIDs :: "'w \<Rightarrow> string list"

record ('w, 'r) Run =
  job :: Job
  validator :: Validator
  batch :: "'r list"
  validationErrors :: "LineError list"
  lineNum :: int
  world :: 'w

datatype 'a step = Continue 'a | Return "error option" 'a | Panicked go_panic

text \<open>
  The three pipelines repeat the same blocks of code, and each block is one function
  here: \<open>rejectRecord\<close> for a record with errors (count it as failed and processed,
  append its errors, flush the buffer at the threshold), \<open>insertBatch\<close> for the call
  of \<^verbatim>\<open>BatchInsert\<close> and the counting after it, \<open>acceptRecord\<close> for a valid record
  (append to the batch, update the caches, insert when the batch is full), and
  \<open>finishRun\<close> for the code after the loop (the rest of the batch, the rest of the
  errors).
\<close>

definition errorFlushThreshold :: int where
  "errorFlushThreshold = 1000"

definition flushValidationErrors :: "'w Repos \<Rightarrow> ('w, 'r) Run \<Rightarrow> ('w, 'r) Run" where
  "flushValidationErrors repos st =
     (if validationErrors st = [] then st
      else st\<lparr>validationErrors := [],
              world := snd (Job_AddErrors repos (world st) (job_ID (job st))
                              (validationErrors st))\<rparr>)"

definition countFailedRecord :: "('w, 'r) Run \<Rightarrow> ('w, 'r) Run" where
  "countFailedRecord st =
     st\<lparr>job := (job st)\<lparr>FailedCount := FailedCount (job st) + 1,
                          ProcessedCount := ProcessedCount (job st) + 1\<rparr>\<rparr>"

definition rejectRecord :: "'w Repos \<Rightarrow> LineError list \<Rightarrow> ('w, 'r) Run \<Rightarrow> ('w, 'r) Run" where
  "rejectRecord repos errs st =
     (let st' = (countFailedRecord st)\<lparr>validationErrors := validationErrors st @ errs\<rparr>
      in if errorFlushThreshold \<le> int (length (validationErrors st'))
         then flushValidationErrors repos st' else st')"

definition insertBatch ::
  "('w \<Rightarrow> 'r list \<Rightarrow> (int \<times> error option) \<times> 'w) \<Rightarrow> ('w, 'r) Run \<Rightarrow> ('w, 'r) Run" where
  "insertBatch ins st =
     (case ins (world st) (batch st) of
        ((inserted, err), w') \<Rightarrow>
          let j = job st;
              j' = (if err \<noteq> None
                    then j\<lparr>FailedCount := FailedCount j + int (length (batch st))\<rparr>
                    else j\<lparr>SuccessfulCount := SuccessfulCount j + inserted\<rparr>)
          in st\<lparr>job := j'\<lparr>ProcessedCount := ProcessedCount j' + int (length (batch st))\<rparr>,
                world := w'\<rparr>)"

definition acceptRecord ::
  "('w \<Rightarrow> 'r list \<Rightarrow> (int \<times> error option) \<times> 'w) \<Rightarrow> int \<Rightarrow> 'r \<Rightarrow> Validator \<Rightarrow>
   ('w, 'r) Run \<Rightarrow> ('w, 'r) Run" where
  "acceptRecord ins batchSize r v' st =
     (let st' = st\<lparr>batch := batch st @ [r], validator := v'\<rparr>
      in if batchSize \<le> int (length (batch st')) then (insertBatch ins st')\<lparr>batch := []\<rparr>
         else st')"

definition finishRun ::
  "'w Repos \<Rightarrow> ('w \<Rightarrow> 'r list \<Rightarrow> (int \<times> error option) \<times> 'w) \<Rightarrow> ('w, 'r) Run \<Rightarrow> Job \<times> 'w" where
  "finishRun repos ins st =
     (let st' = (if batch st \<noteq> [] then insertBatch ins st else st)
      in (job st',
          if validationErrors st' \<noteq> []
          then snd (Job_AddErrors repos (world st') (job_ID (job st')) (validationErrors st'))
          else world st'))"

subsection \<open>Users from CSV\<close>

text \<open>
  The file is the list of its rows as \<^verbatim>\<open>csv.Reader\<close> parses them: the fields of a
  row, or a row it cannot parse. Each \<^verbatim>\<open>Read\<close> gives a record or an error, and the
  end of the list is \<^verbatim>\<open>io.EOF\<close>. The first row is the header. The source makes the
  reader with \<^verbatim>\<open>csv.NewReader\<close> and leaves \<^verbatim>\<open>FieldsPerRecord\<close> at 0, so the number
  of fields of the first record is the number every later record must have: for a row
  with another number of fields \<^verbatim>\<open>Read\<close> returns the error \<^verbatim>\<open>ErrFieldCount\<close>. The
  loop skips a result with an error without counting a line. The list is finite: a
  reader that never reaches the end of the file is not modelled.
\<close>

datatype CSVRow = Row "string list" | BadRow

datatype ReadResult = Record "string list" | ReadError

definition readRecord :: "nat \<Rightarrow> CSVRow \<Rightarrow> ReadResult" where
  "readRecord fieldsPerRecord row =
     (case row of
        BadRow \<Rightarrow> ReadError
      | Row cells \<Rightarrow> if length cells \<noteq> fieldsPerRecord then ReadError else Record cells)"

definition bindPanic :: "go_panic + 'a \<Rightarrow> ('a \<Rightarrow> go_panic + 'b) \<Rightarrow> go_panic + 'b" where
  "bindPanic m f = (case m of Inl p \<Rightarrow> Inl p | Inr x \<Rightarrow> f x)"

definition parseUserCSV :: "string list \<Rightarrow> (string \<rightharpoonup> int) \<Rightarrow> go_panic + UserCSV" where
  "parseUserCSV record headerMap =
     bindPanic (getField record headerMap ''id'') (\<lambda>f_id.
     bindPanic (getField record headerMap ''email'') (\<lambda>f_email.
     bindPanic (getField record headerMap ''name'') (\<lambda>f_name.
     bindPanic (getField record headerMap ''role'') (\<lambda>f_role.
     bindPanic (getField record headerMap ''active'') (\<lambda>f_active.
     bindPanic (getField record headerMap ''created_at'') (\<lambda>f_created.
     bindPanic (getField record headerMap ''updated_at'') (\<lambda>f_updated.
       Inr \<lparr>csv_ID = f_id, csv_Email = f_email, csv_Name = f_name, csv_Role = f_role,
            csv_Active = f_active, csv_CreatedAt = f_created,
            csv_UpdatedAt = f_updated\<rparr>)))))))"

definition userStep ::
  "'w Repos \<Rightarrow> int \<Rightarrow> (int \<Rightarrow> bool) \<Rightarrow> (string \<rightharpoonup> int) \<Rightarrow> string list \<Rightarrow>
   ('w, User) Run \<Rightarrow> ('w, User) Run step" where
  "userStep repos batchSize ctxDone headerMap record st =
     (let st1 = st\<lparr>lineNum := lineNum st + 1,
                   job := (job st)\<lparr>TotalRecords := TotalRecords (job st) + 1\<rparr>\<rparr>
      in if lineNum st1 mod 10000 = 0 \<and> ctxDone (lineNum st1)
         then Return (Some ErrContextCanceled) st1
         else
           case parseUserCSV record headerMap of
             Inl p \<Rightarrow> Panicked p
           | Inr userCSV \<Rightarrow>
               let errors = ValidateUser (validator st1) userCSV (lineNum st1)
               in if errors \<noteq> []
                  then Continue (rejectRecord repos (map (atLine (lineNum st1)) errors) st1)
                  else Continue
                    (acceptRecord (User_BatchInsert repos) batchSize (convertCSVToUser userCSV)
                       (AddUserID (AddUserEmail (validator st1) (csv_Email userCSV))
                          (csv_ID userCSV))
                       st1))"

fun usersLoop ::
  "'w Repos \<Rightarrow> int \<Rightarrow> (int \<Rightarrow> bool) \<Rightarrow> (string \<rightharpoonup> int) \<Rightarrow> ReadResult list \<Rightarrow>
   ('w, User) Run \<Rightarrow> ('w, User) Run step" where
  "usersLoop repos batchSize ctxDone headerMap [] st = Continue st"
| "usersLoop repos batchSize ctxDone headerMap (ReadError # rest) st =
     usersLoop repos batchSize ctxDone headerMap rest st"
| "usersLoop repos batchSize ctxDone headerMap (Record record # rest) st =
     (case userStep repos batchSize ctxDone headerMap record st of
        Continue st' \<Rightarrow> usersLoop repos batchSize ctxDone headerMap rest st'
      | Return err st' \<Rightarrow> Return err st'
      | Panicked p \<Rightarrow> Panicked p)"

definition newRun :: "Job \<Rightarrow> Validator \<Rightarrow> int \<Rightarrow> 'w \<Rightarrow> ('w, 'r) Run" where
  "newRun j v n w =
     \<lparr>job = j, validator = v, batch = [], validationErrors = [], lineNum = n, world = w\<rparr>"

definition processUsersCSV ::
  "'w Repos \<Rightarrow> int \<Rightarrow> (int \<Rightarrow> bool) \<Rightarrow> error + CSVRow list \<Rightarrow> Job \<Rightarrow> 'w \<Rightarrow>
   go_panic + (error option \<times> Job \<times> 'w)" where
  "processUsersCSV repos batchSize ctxDone file j w =
     (case file of
        Inl e \<Rightarrow> Inr (Some e, j, w)
      | Inr [] \<Rightarrow> Inr (Some ErrHeader, j, w)
      | Inr (BadRow # rows) \<Rightarrow> Inr (Some ErrHeader, j, w)
      | Inr (Row header # rows) \<Rightarrow>
          (case usersLoop repos batchSize ctxDone (makeHeaderMap header)
                  (map (readRecord (length header)) rows) (newRun j NewValidator 1 w) of
             Panicked p \<Rightarrow> Inl p
           | Return err st \<Rightarrow> Inr (err, job st, world st)
           | Continue st \<Rightarrow> Inr (None, finishRun repos (User_BatchInsert repos) st)))"

subsection \<open>Articles and comments from NDJSON\<close>

text \<open>
  \<^verbatim>\<open>processArticlesNDJSON\<close> and \<^verbatim>\<open>processCommentsNDJSON\<close> are the same loop; they
  differ in the record type, the validation function, the conversion, what is added to
  the caches after a record is accepted, and the repository. \<^verbatim>\<open>json.Unmarshal\<close> is
  the library's and is a parameter: it gives the decoded record or the text of its
  error. The file is the list of lines that \<^verbatim>\<open>scanner.Scan\<close> yields and the error
  \<^verbatim>\<open>scanner.Err()\<close> reports after the last of them.
\<close>

record ('w, 'n, 'r) Loader =
  unmarshal :: "string \<Rightarrow> string + 'n"
  validate :: "Validator \<Rightarrow> 'n \<Rightarrow> int \<Rightarrow> ValidationError list"
  convert :: "'n \<Rightarrow> 'r"
  remember :: "Validator \<Rightarrow> 'n \<Rightarrow> Validator"
  bulkInsert :: "'w \<Rightarrow> 'r list \<Rightarrow> (int \<times> error option) \<times> 'w"

definition ndjsonStep ::
  "'w Repos \<Rightarrow> ('w, 'n, 'r) Loader \<Rightarrow> int \<Rightarrow> (int \<Rightarrow> bool) \<Rightarrow> string \<Rightarrow>
   ('w, 'r) Run \<Rightarrow> ('w, 'r) Run step" where
  "ndjsonStep repos ld batchSize ctxDone line st =
     (let st1 = st\<lparr>lineNum := lineNum st + 1\<rparr>
      in if TrimSpace line = [] then Continue st1
         else
           let st2 = st1\<lparr>job := (job st1)\<lparr>TotalRecords := TotalRecords (job st1) + 1\<rparr>\<rparr>
           in if lineNum st2 mod 10000 = 0 \<and> ctxDone (lineNum st2)
              then Return (Some ErrContextCanceled) st2
              else
                case unmarshal ld line of
                  Inl msg \<Rightarrow>
                    Continue (rejectRecord repos
                      [atLine (lineNum st2) (mkError ''json'' (''invalid JSON: '' @ msg) None)]
                      st2)
                | Inr r \<Rightarrow>
                    let errors = validate ld (validator st2) r (lineNum st2)
                    in if errors \<noteq> []
                       then Continue
                         (rejectRecord repos (map (atLine (lineNum st2)) errors) st2)
                       else Continue
                         (acceptRecord (bulkInsert ld) batchSize (convert ld r)
                            (remember ld (validator st2) r) st2))"

fun ndjsonLoop ::
  "'w Repos \<Rightarrow> ('w, 'n, 'r) Loader \<Rightarrow> int \<Rightarrow> (int \<Rightarrow> bool) \<Rightarrow> string list \<Rightarrow>
   ('w, 'r) Run \<Rightarrow> ('w, 'r) Run step" where
  "ndjsonLoop repos ld batchSize ctxDone [] st = Continue st"
| "ndjsonLoop repos ld batchSize ctxDone (line # rest) st =
     (case ndjsonStep repos ld batchSize ctxDone line st of
        Continue st' \<Rightarrow> ndjsonLoop repos ld batchSize ctxDone rest st'
      | Return err st' \<Rightarrow> Return err st'
      | Panicked p \<Rightarrow> Panicked p)"

definition processNDJSON ::
  "'w Repos \<Rightarrow> ('w, 'n, 'r) Loader \<Rightarrow> int \<Rightarrow> (int \<Rightarrow> bool) \<Rightarrow> Validator \<Rightarrow>
   error + (string list \<times> error option) \<Rightarrow> Job \<Rightarrow> 'w \<Rightarrow> go_panic + (error option \<times> Job \<times> 'w)" where
  "processNDJSON repos ld batchSize ctxDone v file j w =
     (case file of
        Inl e \<Rightarrow> Inr (Some e, j, w)
      | Inr (lines, scanErr) \<Rightarrow>
          (case ndjsonLoop repos ld batchSize ctxDone lines (newRun j v 0 w) of
             Panicked p \<Rightarrow> Inl p
           | Return err st \<Rightarrow> Inr (err, job st, world st)
           | Continue st \<Rightarrow> Inr (scanErr, finishRun repos (bulkInsert ld) st)))"

definition articleLoader ::
  "'w Repos \<Rightarrow> (string \<Rightarrow> string + ArticleNDJSON) \<Rightarrow> ('w, ArticleNDJSON, Article) Loader" where
  "articleLoader repos dec =
     \<lparr>unmarshal = dec, validate = ValidateArticle, convert = convertNDJSONToArticle,
      remember = (\<lambda>v a. AddArticleID (AddArticleSlug v (art_Slug a)) (art_ID a)),
      bulkInsert = Article_BatchInsert repos\<rparr>"

definition commentLoader ::
  "'w Repos \<Rightarrow> (string \<Rightarrow> string + CommentNDJSON) \<Rightarrow> ('w, CommentNDJSON, Comment) Loader" where
  "commentLoader repos dec =
     \<lparr>unmarshal = dec, validate = ValidateComment, convert = convertNDJSONToComment,
      remember = (\<lambda>v c. v), bulkInsert = Comment_BatchInsert repos\<rparr>"

definition processArticlesNDJSON ::
  "'w Repos \<Rightarrow> (string \<Rightarrow> string + ArticleNDJSON) \<Rightarrow> int \<Rightarrow> (int \<Rightarrow> bool) \<Rightarrow> string list \<Rightarrow>
   error + (string list \<times> error option) \<Rightarrow> Job \<Rightarrow> 'w \<Rightarrow> go_panic + (error option \<times> Job \<times> 'w)" where
  "processArticlesNDJSON repos dec batchSize ctxDone userIDs file j w =
     processNDJSON repos (articleLoader repos dec) batchSize ctxDone
       (articlesValidator userIDs) file j w"

definition processCommentsNDJSON ::
  "'w Repos \<Rightarrow> (string \<Rightarrow> string + CommentNDJSON) \<Rightarrow> int \<Rightarrow> (int \<Rightarrow> bool) \<Rightarrow> string list \<Rightarrow>
   string list \<Rightarrow> error + (string list \<times> error option) \<Rightarrow> Job \<Rightarrow> 'w \<Rightarrow>
   go_panic + (error option \<times> Job \<times> 'w)" where
  "processCommentsNDJSON repos dec batchSize ctxDone userIDs articleIDs file j w =
     processNDJSON repos (commentLoader repos dec) batchSize ctxDone
       (commentsValidator userIDs articleIDs) file j w"

subsection \<open>Processing a job\<close>

text \<open>
  \<^verbatim>\<open>ProcessImport\<close> marks the job as processing, runs the pipeline of its resource
  and sets the final status from the error the pipeline returned. The staged file is
  given by what \<^verbatim>\<open>os.Open\<close> answers and, when it opens, by what the CSV reader and
  the line scanner make of its bytes. A panic of the pipeline leaves
  \<^verbatim>\<open>ProcessImport\<close> and is caught by the scheduler. The job row is written by
  \<^verbatim>\<open>Update\<close>, whose result the source drops; the model returns the job.
\<close>

record StagedFile =
  csvRecords :: "CSVRow list"
  scannedLines :: "string list"
  scannerErr :: "error option"

record Env =
  batchSize :: int
  ctxDone :: "int \<Rightarrow> bool"
  decodeArticle :: "string \<Rightarrow> string + ArticleNDJSON"
  decodeComment :: "string \<Rightarrow> string + CommentNDJSON"

definition ProcessImport ::
  "'w Repos \<Rightarrow> Env \<Rightarrow> error + StagedFile \<Rightarrow> Job \<Rightarrow> 'w \<Rightarrow> go_panic + (error option \<times> Job \<times> 'w)" where
  "ProcessImport repos env file j w =
     (let j1 = j\<lparr>Status := JobStatusProcessing\<rparr>;
          lines = (case file of Inl e \<Rightarrow> Inl e | Inr f \<Rightarrow> Inr (scannedLines f, scannerErr f));
          r = (if Resource j1 = ''users''
                 then processUsersCSV repos (batchSize env) (ctxDone env)
                        (case file of Inl e \<Rightarrow> Inl e | Inr f \<Rightarrow> Inr (csvRecords f)) j1 w
               else if Resource j1 = ''articles''
                 then processArticlesNDJSON repos (decodeArticle env) (batchSize env)
                        (ctxDone env) (User_GetAllIDs repos w) lines j1 w
               else if Resource j1 = ''comments''
                 then processCommentsNDJSON repos (decodeComment env) (batchSize env)
                        (ctxDone env) (User_GetAllIDs repos w) (Article_GetAllIDs repos w)
                        lines j1 w
               else Inr (Some ErrUnknownResource, j1, w))
      in case r of
           Inl p \<Rightarrow> Inl p
         | Inr (err, j2, w2) \<Rightarrow>
             Inr (err,
                  j2\<lparr>Status := (if err \<noteq> None then JobStatusFailed else JobStatusCompleted)\<rparr>,
                  w2))"

subsection \<open>The repositories on the database\<close>

text \<open>
  \<^verbatim>\<open>AddErrors\<close> writes the errors of a job with the same COPY protocol as
  \<^verbatim>\<open>BatchInsert\<close>; it drops the result of the per-row calls. A value that is absent
  is stored as the empty text.
\<close>

record JobErrorRow =
  row_job_id :: string
  row_line :: int
  row_field :: string
  row_message :: string
  row_value :: string

definition errorRow :: "string \<Rightarrow> LineError \<Rightarrow> JobErrorRow" where
  "errorRow jobID e =
     \<lparr>row_job_id = jobID, row_line = Line e, row_field = Field e, row_message = Message e,
      row_value = (case Value e of None \<Rightarrow> [] | Some v \<Rightarrow> v)\<rparr>"

definition AddErrors ::
  "Driver \<Rightarrow> JobErrorRow list \<Rightarrow> string \<Rightarrow> LineError list \<Rightarrow> error option \<times> JobErrorRow list" where
  "AddErrors db table jobID errors =
     (if errors = [] then (None, table)
      else if beginFails db then (Some ErrBegin, table)
      else if prepareFails db then (Some ErrPrepare, table)
      else
        let staged = acceptedRows (rowFails db) 0 (map (errorRow jobID) errors)
        in if copyBroken db (length errors) then (Some ErrCopy, table)
           else if commitFails db then (Some ErrCommit, table)
           else (None, table @ staged))"

definition GetAllIDs :: "Driver \<Rightarrow> string list \<Rightarrow> string list" where
  "GetAllIDs db ids = (if queryFails db then [] else ids)"

record World =
  usersTable :: "User list"
  articlesTable :: "Article list"
  commentsTable :: "Comment list"
  jobErrors :: "JobErrorRow list"

definition emptyWorld :: World where
  "emptyWorld = \<lparr>usersTable = [], articlesTable = [], commentsTable = [], jobErrors = []\<rparr>"

definition pgRepos :: "Driver \<Rightarrow> World Repos" where
  "pgRepos db =
     \<lparr>User_BatchInsert =
        (\<lambda>w rows. case BatchInsert db (usersTable w) rows of (r, t) \<Rightarrow> (r, w\<lparr>usersTable := t\<rparr>)),
      Article_BatchInsert =
        (\<lambda>w rows. case BatchInsert db (articlesTable w) rows of
                     (r, t) \<Rightarrow> (r, w\<lparr>articlesTable := t\<rparr>)),
      Comment_BatchInsert =
        (\<lambda>w rows. case BatchInsert db (commentsTable w) rows of
                     (r, t) \<Rightarrow> (r, w\<lparr>commentsTable := t\<rparr>)),
      Job_AddErrors =
        (\<lambda>w jobID errs. case AddErrors db (jobErrors w) jobID errs of
                          (e, t) \<Rightarrow> (e, w\<lparr>jobErrors := t\<rparr>)),
      User_GetAllIDs = (\<lambda>w. GetAllIDs db (map usr_ID (usersTable w))),
      Article_GetAllIDs = (\<lambda>w. GetAllIDs db (map a_ID (articlesTable w)))\<rparr>"

text \<open>Inputs for concrete runs.\<close>

definition newJob :: "string \<Rightarrow> string \<Rightarrow> string \<Rightarrow> string \<Rightarrow> Job" where
  "newJob jid resource key path =
     \<lparr>job_ID = jid, job_Type = JobTypeImport, Resource = resource, Status = JobStatusPending,
      IdempotencyKey = key, TotalRecords = 0, ProcessedCount = 0, SuccessfulCount = 0,
      FailedCount = 0, FilePath = path\<rparr>"

definition zeroArticle :: ArticleNDJSON where
  "zeroArticle =
     \<lparr>art_ID = [], art_Slug = [], art_Title = [], art_Body = [], art_AuthorID = [],
      art_Tags = [], art_Status = [], art_PublishedAt = []\<rparr>"

definition decodeEmptyObject :: "string \<Rightarrow> string + ArticleNDJSON" where
  "decodeEmptyObject line =
     (if line = ''{}'' then Inr zeroArticle else Inl ''unexpected end of JSON input'')"

definition zeroComment :: CommentNDJSON where
  "zeroComment =
     \<lparr>cm_ID = [], cm_ArticleID = [], cm_UserID = [], cm_Body = [], cm_CreatedAt = []\<rparr>"

definition sampleEnv :: "(int \<Rightarrow> bool) \<Rightarrow> Env" where
  "sampleEnv done =
     \<lparr>batchSize = 1000, ctxDone = done, decodeArticle = decodeEmptyObject,
      decodeComment = (\<lambda>line. if line = ''{}'' then Inr zeroComment
                               else Inl ''unexpected end of JSON input'')\<rparr>"

definition userHeader :: "string list" where
  "userHeader = [''id'', ''email'', ''name'', ''role'', ''active'', ''created_at'']"

definition shortRow :: "string list" where
  "shortRow = [''22222222-2222-2222-2222-222222222222'', ''b@x.io'']"


definition shortRowCSV :: StagedFile where
  "shortRowCSV =
     \<lparr>csvRecords =
        [Row [''id'', ''email'', ''name'', ''role'', ''active'', ''created_at''],
         Row [''11111111-1111-1111-1111-111111111111'', ''a@x.io'', ''A'', ''admin'',
              ''true'', ''2024-01-01T00:00:00Z''],
         Row [''22222222-2222-2222-2222-222222222222'', ''b@x.io''],
         Row [''33333333-3333-3333-3333-333333333333'', ''c@x.io'', ''C'', ''viewer'',
              ''true'', ''2024-01-01T00:00:00Z'']],
      scannedLines = [], scannerErr = None\<rparr>"

definition cancelledArticles :: StagedFile where
  "cancelledArticles =
     \<lparr>csvRecords = [],
      scannedLines = ''{}'' # replicate 9998 [] @ [''{}''],
      scannerErr = None\<rparr>"

definition afterFirstLine :: "(World, Article) Run" where
  "afterFirstLine =
     \<lparr>job = (newJob ''j1'' ''articles'' [] ''/tmp/a.ndjson'')
              \<lparr>Status := JobStatusProcessing, TotalRecords := 1, ProcessedCount := 1,
               FailedCount := 1\<rparr>,
      validator = NewValidator, batch = [],
      validationErrors =
        map (atLine 1)
          [mkError ''id'' ''id is required'' None, mkError ''slug'' ''slug is required'' None,
           mkError ''title'' ''title is required'' None,
           mkError ''body'' ''body is required'' None,
           mkError ''author_id'' ''author_id is required'' None],
      lineNum = 1, world = emptyWorld\<rparr>"

section \<open>Export\<close>

text \<open>
  \<^verbatim>\<open>streamUsersNDJSON\<close> writes, for each user that \<^verbatim>\<open>StreamAll\<close> yields, the JSON
  text of the user and a newline, and stops at the first error. \<^verbatim>\<open>json.Marshal\<close> is
  the library's and is a parameter. The response names the file
  \<^verbatim>\<open>users.ndjson\<close> in its \<^verbatim>\<open>Content-Disposition\<close> header.
\<close>

record Download =
  dl_filename :: string
  dl_body :: string
  dl_count :: nat
  dl_err :: "error option"

fun writeNDJSON :: "('a \<Rightarrow> error + string) \<Rightarrow> 'a list \<Rightarrow> Download \<Rightarrow> Download" where
  "writeNDJSON marshal [] d = d"
| "writeNDJSON marshal (x # xs) d =
     (case marshal x of
        Inl e \<Rightarrow> d\<lparr>dl_err := Some e\<rparr>
      | Inr data \<Rightarrow>
          writeNDJSON marshal xs
            (d\<lparr>dl_body := dl_body d @ data @ [CHR 0x0A], dl_count := dl_count d + 1\<rparr>))"

definition streamUsersNDJSON :: "Driver \<Rightarrow> (User \<Rightarrow> error + string) \<Rightarrow> User list \<Rightarrow> Download" where
  "streamUsersNDJSON db marshal users =
     (let d = \<lparr>dl_filename = ''users.ndjson'', dl_body = [], dl_count = 0, dl_err = None\<rparr>
      in if queryFails db then d\<lparr>dl_err := Some ErrQuery\<rparr> else writeNDJSON marshal users d)"

section \<open>The import endpoint\<close>

text \<open>
  \<^verbatim>\<open>CreateImport\<close> answers \<^verbatim>\<open>POST /v1/imports\<close>. The request is what the handler
  reads from it; the answers of the file system and of the database, and the random
  parts of the file name and of the job id, are inputs. So is \<^verbatim>\<open>filepath.Join\<close>, the
  library function that joins the upload directory and the file name and cleans the
  result. The state is the table of jobs and the files in the upload directory.
\<close>

record Upload =
  up_Filename :: string
  up_Size :: int
  up_Content :: string

record ImportHTTPRequest =
  hdr_IdempotencyKey :: string
  form_resource :: string
  query_resource :: string
  form_file :: "Upload option"
  json_body_ok :: bool

record HandlerEnv =
  MaxUploadSize :: int
  UploadDir :: string
  lookupDb :: Driver
  createDb :: Driver
  mkdirFails :: bool
  createFileFails :: bool
  copyFileFails :: bool
  newFileTag :: string
  newJobID :: string
  joinPath :: "string \<Rightarrow> string \<Rightarrow> string"

record Server =
  jobs :: "Job list"
  files :: "(string \<times> string) list"

datatype Body =
  JobJSON Job
  | ErrorJSON string
  | AcceptedJSON string JobStatus string string

definition GetByIdempotencyKey :: "Driver \<Rightarrow> Job list \<Rightarrow> string \<Rightarrow> error + Job option" where
  "GetByIdempotencyKey db table key =
     (if queryFails db then Inl ErrQuery
      else Inr (List.find (\<lambda>j. IdempotencyKey j \<noteq> [] \<and> IdempotencyKey j = key) table))"

text \<open>
  \<^verbatim>\<open>Create\<close> inserts the job row; the table has a primary key on the id and a
  \<^verbatim>\<open>UNIQUE\<close> constraint on the idempotency key, which is stored as \<^verbatim>\<open>NULL\<close> when
  empty.
\<close>

definition JobCreate :: "Driver \<Rightarrow> Job list \<Rightarrow> Job \<Rightarrow> error + Job list" where
  "JobCreate db table j =
     (if queryFails db then Inl ErrQuery
      else if list_ex (\<lambda>j'. job_ID j' = job_ID j) table then Inl ErrUniqueViolation
      else if IdempotencyKey j \<noteq> [] \<and>
              list_ex (\<lambda>j'. IdempotencyKey j' = IdempotencyKey j) table
        then Inl ErrUniqueViolation
      else Inr (table @ [j]))"

definition CreateImportJob ::
  "Driver \<Rightarrow> string \<Rightarrow> Job list \<Rightarrow> string \<Rightarrow> string \<Rightarrow> string \<Rightarrow> error + (Job \<times> Job list)" where
  "CreateImportJob db jid table resource key filePath =
     (let j = \<lparr>job_ID = jid, job_Type = JobTypeImport, Resource = resource,
               Status = JobStatusPending, IdempotencyKey = key, TotalRecords = 0,
               ProcessedCount = 0, SuccessfulCount = 0, FailedCount = 0,
               FilePath = filePath\<rparr>
      in case JobCreate db table j of Inl e \<Rightarrow> Inl e | Inr table' \<Rightarrow> Inr (j, table'))"

definition Ext :: "string \<Rightarrow> string" where
  "Ext path =
     (let base = takeWhile (\<lambda>c. c \<noteq> CHR ''/'') (rev path)
      in if CHR ''.'' \<in> set base
         then CHR ''.'' # rev (takeWhile (\<lambda>c. c \<noteq> CHR ''.'') base)
         else [])"

definition goDiv :: "int \<Rightarrow> int \<Rightarrow> int" where
  "goDiv a b = sgn a * sgn b * (\<bar>a\<bar> div \<bar>b\<bar>)"

definition itoaInt :: "int \<Rightarrow> string" where
  "itoaInt i = (if i < 0 then ''-'' @ itoa (nat (- i)) else itoa (nat i))"

text \<open>
  The second half of the handler: saving the upload under a fresh name and creating
  the job. A copy that fails leaves the file that \<^verbatim>\<open>os.Create\<close> made.
\<close>

definition stageAndCreate ::
  "HandlerEnv \<Rightarrow> string \<Rightarrow> string \<Rightarrow> Upload \<Rightarrow> string \<Rightarrow> Server \<Rightarrow> (nat \<times> Body) \<times> Server" where
  "stageAndCreate env resource idempotencyKey header ext srv =
     (if mkdirFails env then ((500, ErrorJSON ''failed to save file''), srv)
      else
        let filePath = joinPath env (UploadDir env) (resource @ ''_'' @ newFileTag env @ ext)
        in if createFileFails env then ((500, ErrorJSON ''failed to save file''), srv)
           else if copyFileFails env
             then ((500, ErrorJSON ''failed to save file''),
                   srv\<lparr>files := files srv @ [(filePath, [])]\<rparr>)
           else
             let srv' = srv\<lparr>files := files srv @ [(filePath, up_Content header)]\<rparr>
             in case CreateImportJob (createDb env) (newJobID env) (jobs srv') resource
                       idempotencyKey filePath of
                  Inl e \<Rightarrow> ((500, ErrorJSON ''failed to create import job''), srv')
                | Inr (j, table') \<Rightarrow>
                    ((202, AcceptedJSON (job_ID j) (Status j) (Resource j)
                             ''Import job created and queued for processing''),
                     srv'\<lparr>jobs := table'\<rparr>))"

text \<open>
  The first half, after the idempotency check: the resource, the upload, its size and
  its extension.
\<close>

definition checkUpload ::
  "HandlerEnv \<Rightarrow> string \<Rightarrow> string \<Rightarrow> Upload option \<Rightarrow> bool \<Rightarrow> Server \<Rightarrow> (nat \<times> Body) \<times> Server" where
  "checkUpload env resource idempotencyKey upload jsonOk srv =
     (if resource = []
        then ((400, ErrorJSON ''resource parameter is required (users, articles, comments)''),
              srv)
      else if resource \<noteq> ''users'' \<and> resource \<noteq> ''articles'' \<and> resource \<noteq> ''comments''
        then ((400, ErrorJSON ''resource must be one of: users, articles, comments''), srv)
      else
        case upload of
          None \<Rightarrow>
            (if \<not> jsonOk
             then ((400, ErrorJSON ''file upload or file_url is required''), srv)
             else ((501, ErrorJSON ''file_url not yet implemented, please use file upload''),
                   srv))
        | Some header \<Rightarrow>
            if MaxUploadSize env < up_Size header
              then ((400, ErrorJSON (''file too large, max size is '' @
                            itoaInt (goDiv (MaxUploadSize env) (1024 * 1024)) @ '' MB'')),
                    srv)
            else
              let ext = ToLower (Ext (up_Filename header))
              in if resource = ''users'' \<and> ext \<noteq> ''.csv''
                   then ((400, ErrorJSON ''users import requires CSV file''), srv)
                 else if (resource = ''articles'' \<or> resource = ''comments'') \<and>
                         ext \<noteq> ''.ndjson'' \<and> ext \<noteq> ''.json''
                   then ((400, ErrorJSON ''articles/comments import requires NDJSON file''),
                         srv)
                 else stageAndCreate env resource idempotencyKey header ext srv)"

definition CreateImport ::
  "HandlerEnv \<Rightarrow> ImportHTTPRequest \<Rightarrow> Server \<Rightarrow> (nat \<times> Body) \<times> Server" where
  "CreateImport env req srv =
     (let idempotencyKey = hdr_IdempotencyKey req;
          existingJob =
            (if idempotencyKey \<noteq> []
             then (case GetByIdempotencyKey (lookupDb env) (jobs srv) idempotencyKey of
                     Inl e \<Rightarrow> None
                   | Inr found \<Rightarrow> found)
             else None)
      in case existingJob of
           Some j \<Rightarrow> ((200, JobJSON j), srv)
         | None \<Rightarrow>
             checkUpload env
               (if form_resource req = [] then query_resource req else form_resource req)
               idempotencyKey (form_file req) (json_body_ok req) srv)"

definition submitExport :: "string \<Rightarrow> string \<Rightarrow> Download \<Rightarrow> ImportHTTPRequest" where
  "submitExport key resource d =
     \<lparr>hdr_IdempotencyKey = key, form_resource = resource, query_resource = [],
      form_file = Some \<lparr>up_Filename = dl_filename d, up_Size = int (length (dl_body d)),
                        up_Content = dl_body d\<rparr>,
      json_body_ok = False\<rparr>"

text \<open>Inputs for concrete runs.\<close>

definition sampleHandlerEnv :: HandlerEnv where
  "sampleHandlerEnv =
     \<lparr>MaxUploadSize = 524288000, UploadDir = ''/tmp/uploads'', lookupDb = healthy,
      createDb = healthy, mkdirFails = False, createFileFails = False, copyFileFails = False,
      newFileTag = ''0a1b2c3d'', newJobID = ''33333333-3333-3333-3333-333333333333'',
      joinPath = (\<lambda>dir name. dir @ ''/'' @ name)\<rparr>"

definition sampleUser :: User where
  "sampleUser =
     \<lparr>usr_ID = ''11111111-1111-1111-1111-111111111111'', usr_Email = ''a@x.io'',
      usr_Name = ''A'', usr_Role = ''admin'', usr_Active = True,
      usr_CreatedAt = Some ''2024-01-01T00:00:00Z''\<rparr>"

definition quoted :: "string \<Rightarrow> string" where
  "quoted s = [CHR 0x22] @ s @ [CHR 0x22]"

definition sampleMarshal :: "User \<Rightarrow> error + string" where
  "sampleMarshal u =
     Inr (''{'' @ quoted ''id'' @ '':'' @ quoted (usr_ID u) @ '','' @
          quoted ''email'' @ '':'' @ quoted (usr_Email u) @ '','' @
          quoted ''name'' @ '':'' @ quoted (usr_Name u) @ '','' @
          quoted ''role'' @ '':'' @ quoted (usr_Role u) @ '','' @
          quoted ''active'' @ '':'' @ (if usr_Active u then ''true'' else ''false'') @ '','' @
          quoted ''created_at'' @ '':'' @
            quoted (case usr_CreatedAt u of None \<Rightarrow> ''0001-01-01T00:00:00Z'' | Some t \<Rightarrow> t) @
          ''}'')"

definition firstJob :: Job where
  "firstJob = newJob ''44444444-4444-4444-4444-444444444444'' ''articles'' ''key-1''
                ''/tmp/uploads/articles_9f8e7d6c.ndjson''"

definition retryRequest :: ImportHTTPRequest where
  "retryRequest =
     \<lparr>hdr_IdempotencyKey = ''key-1'', form_resource = ''articles'', query_resource = [],
      form_file = Some \<lparr>up_Filename = ''articles.ndjson'', up_Size = 3, up_Content = ''{}'' @ [CHR 0x0A]\<rparr>,
      json_body_ok = False\<rparr>"

section \<open>Job scheduler\<close>

text \<open>
  \<^verbatim>\<open>newJobService\<close> sizes the semaphore from the number of CPUs, and
  \<^verbatim>\<open>MarkJobAsProcessing\<close> is the single \<^verbatim>\<open>UPDATE\<close> by which a worker claims a
  pending job; it reports whether a row changed.
\<close>

definition maxWorkers :: "int \<Rightarrow> int" where
  "maxWorkers numCPU =
     (let m = numCPU * 4;
          m1 = (if m < 4 then 4 else m)
      in if 32 < m1 then 32 else m1)"

definition MarkJobAsProcessing ::
  "Driver \<Rightarrow> Job list \<Rightarrow> string \<Rightarrow> (bool \<times> error option) \<times> Job list" where
  "MarkJobAsProcessing db table jobID =
     (if queryFails db then ((False, Some ErrQuery), table)
      else ((list_ex (\<lambda>j. job_ID j = jobID \<and> Status j = JobStatusPending) table, None),
            map (\<lambda>j. if job_ID j = jobID \<and> Status j = JobStatusPending
                      then j\<lparr>Status := JobStatusProcessing\<rparr> else j) table))"




section \<open>Properties\<close>

subsection \<open>CSV field lookup\<close>

lemma rangeHeader_nonneg:
  "0 \<le> i \<Longrightarrow> \<forall>k' j. m k' = Some j \<longrightarrow> 0 \<le> j \<Longrightarrow>
   rangeHeader i hs m k = Some idx \<Longrightarrow> 0 \<le> idx"
proof (induction hs arbitrary: i m)
  case Nil
  then show ?case by auto
next
  case (Cons h hs)
  have step: "\<forall>k' j. (m(ToLower (TrimSpace h) \<mapsto> i)) k' = Some j \<longrightarrow> 0 \<le> j"
    using Cons.prems(1,2) by (auto split: if_splits)
  have next_idx: "0 \<le> i + 1" using Cons.prems(1) by simp
  have "rangeHeader (i + 1) hs (m(ToLower (TrimSpace h) \<mapsto> i)) k = Some idx"
    using Cons.prems(3) by simp
  with Cons.IH [of "i + 1" "m(ToLower (TrimSpace h) \<mapsto> i)"] step next_idx
  show ?case by blast
qed

lemma makeHeaderMap_nonneg: "makeHeaderMap header k = Some idx \<Longrightarrow> 0 \<le> idx"
  unfolding makeHeaderMap_def by (rule rangeHeader_nonneg [of 0 Map.empty header k]) auto

lemma rangeHeader_snoc:
  "rangeHeader i (hs @ [h]) m =
     (rangeHeader i hs m)(ToLower (TrimSpace h) \<mapsto> i + int (length hs))"
  by (induction hs arbitrary: i m) (simp_all add: add.assoc)

lemma columnIndex_snoc:
  "columnIndex (hs @ [h]) field =
     (if ToLower (TrimSpace h) = field then Some (length hs) else columnIndex hs field)"
proof -
  have same: "filter (\<lambda>i. ToLower (TrimSpace ((hs @ [h]) ! i)) = field) (rev [0..<length hs]) =
              filter (\<lambda>i. ToLower (TrimSpace (hs ! i)) = field) (rev [0..<length hs])"
    by (rule filter_cong) (simp_all add: nth_append)
  show ?thesis
    unfolding columnIndex_def by (simp add: same)
qed

lemma makeHeaderMap_columnIndex:
  "makeHeaderMap header field = map_option int (columnIndex header field)"
proof (induction header rule: rev_induct)
  case Nil
  show ?case by (simp add: makeHeaderMap_def columnIndex_def)
next
  case (snoc h hs)
  then show ?case
    unfolding makeHeaderMap_def by (simp add: rangeHeader_snoc columnIndex_snoc)
qed

lemma columnIndex_less: "columnIndex header field = Some i \<Longrightarrow> i < length header"
proof -
  assume found: "columnIndex header field = Some i"
  let ?hits = "filter (\<lambda>i. ToLower (TrimSpace (header ! i)) = field) (rev [0..<length header])"
  from found obtain rest where "?hits = i # rest"
    unfolding columnIndex_def by (auto split: list.splits)
  then have "i \<in> set ?hits" by simp
  then show ?thesis by simp
qed

lemma getField_makeHeaderMap:
  "getField cells (makeHeaderMap header) field =
     Inr (case columnIndex header field of
            Some i \<Rightarrow> if i < length cells then TrimSpace (cells ! i) else []
          | None \<Rightarrow> [])"
  by (cases "columnIndex header field")
     (simp_all add: getField_def index_slice_def makeHeaderMap_columnIndex)

lemma parseUserCSV_makeHeaderMap:
  "\<exists>user. parseUserCSV cells (makeHeaderMap header) = Inr user"
  by (simp add: getField_makeHeaderMap parseUserCSV_def bindPanic_def)

lemma getField_negative_index:
  "getField [''x''] [''id'' \<mapsto> - 1] ''id'' = Inl IndexOutOfRange"
  by (simp add: getField_def index_slice_def)

lemma usersLoop_skips_other_length:
  "length cells \<noteq> n \<Longrightarrow>
   usersLoop repos bs done hm (map (readRecord n) (Row cells # rows)) st =
   usersLoop repos bs done hm (map (readRecord n) rows) st"
  by (simp add: readRecord_def)

text \<open>
  Claim C9, as stated: a row with fewer fields than the header is processed, its
  missing fields seen as empty by the validator. In the program such a row does not
  reach the lookup: the reader returns \<^verbatim>\<open>ErrFieldCount\<close> for it and the loop goes on
  to the next row. A file of a header of six columns, a valid row, a row of two fields
  and another valid row gives a job with two records, both successful, and no stored
  error.
\<close>

theorem short_row_skipped_by_reader:
  "ProcessImport (pgRepos healthy) (sampleEnv (\<lambda>n. False)) (Inr shortRowCSV)
     (newJob ''j1'' ''users'' [] ''/tmp/users.csv'') emptyWorld =
   Inr (None,
        \<lparr>job_ID = ''j1'', job_Type = JobTypeImport, Resource = ''users'',
         Status = JobStatusCompleted, IdempotencyKey = [], TotalRecords = 2,
         ProcessedCount = 2, SuccessfulCount = 2, FailedCount = 0,
         FilePath = ''/tmp/users.csv''\<rparr>,
        \<lparr>usersTable =
           [\<lparr>usr_ID = ''11111111-1111-1111-1111-111111111111'', usr_Email = ''a@x.io'',
             usr_Name = ''A'', usr_Role = ''admin'', usr_Active = True,
             usr_CreatedAt = Some ''2024-01-01T00:00:00Z''\<rparr>,
            \<lparr>usr_ID = ''33333333-3333-3333-3333-333333333333'', usr_Email = ''c@x.io'',
             usr_Name = ''C'', usr_Role = ''viewer'', usr_Active = True,
             usr_CreatedAt = Some ''2024-01-01T00:00:00Z''\<rparr>],
         articlesTable = [], commentsTable = [], jobErrors = []\<rparr>)"
  by code_simp

text \<open>
  Claim C9, amended: for every header row, every record and every column name, the
  lookup \<^verbatim>\<open>getField\<close> on the header map that the pipeline builds from the header never
  indexes out of range: it returns the trimmed cell of the column that is present in the
  header under that name (the last one of that name, an index below the length of the
  header) when the index is less than the length of the record, and the empty string
  in every other case; so reading a record into a \<^verbatim>\<open>UserCSV\<close> never panics. A row
  whose number of fields differs from the header's is not looked up at all: the loop
  skips it, without counting or validating it.
\<close>

theorem getField_on_header_map:
  "getField cells (makeHeaderMap header) field =
     Inr (case columnIndex header field of
            Some i \<Rightarrow> if i < length cells then TrimSpace (cells ! i) else []
          | None \<Rightarrow> []) \<and>
   (\<forall>i. columnIndex header field = Some i \<longrightarrow> i < length header) \<and>
   (\<exists>user. parseUserCSV cells (makeHeaderMap header) = Inr user) \<and>
   (length cells \<noteq> length header \<longrightarrow>
      usersLoop repos bs done (makeHeaderMap header)
        (map (readRecord (length header)) (Row cells # rows)) st =
      usersLoop repos bs done (makeHeaderMap header)
        (map (readRecord (length header)) rows) st)"
  using usersLoop_skips_other_length
    [of cells "length header" repos bs "done" "makeHeaderMap header" rows st]
  by (simp add: getField_makeHeaderMap columnIndex_less parseUserCSV_makeHeaderMap)

theorem getField_on_header_map_witness:
  "columnIndex userHeader ''name'' = Some 2 \<and> length shortRow \<noteq> length userHeader \<and>
   getField shortRow (makeHeaderMap userHeader) ''name'' = Inr [] \<and>
   usersLoop (pgRepos healthy) 1000 (\<lambda>n. False) (makeHeaderMap userHeader)
     (map (readRecord (length userHeader)) [Row shortRow])
     (newRun (newJob ''j1'' ''users'' [] ''/tmp/users.csv'') NewValidator 1 emptyWorld) =
   Continue (newRun (newJob ''j1'' ''users'' [] ''/tmp/users.csv'') NewValidator 1 emptyWorld)"
proof -
  let ?st = "newRun (newJob ''j1'' ''users'' [] ''/tmp/users.csv'') NewValidator 1 emptyWorld
               :: (World, User) Run"
  note inst = getField_on_header_map [of shortRow userHeader "''name''" "pgRepos healthy" 1000
      "\<lambda>n. False" "[]" ?st]
  have col: "columnIndex userHeader ''name'' = Some 2"
    by code_simp
  have len: "length shortRow \<noteq> length userHeader"
    by (simp add: shortRow_def userHeader_def)
  from inst col have "getField shortRow (makeHeaderMap userHeader) ''name'' =
      Inr (if 2 < length shortRow then TrimSpace (shortRow ! 2) else [])"
    by simp
  then have field: "getField shortRow (makeHeaderMap userHeader) ''name'' = Inr []"
    by (simp add: shortRow_def)
  from inst len have "usersLoop (pgRepos healthy) 1000 (\<lambda>n. False) (makeHeaderMap userHeader)
        (map (readRecord (length userHeader)) [Row shortRow]) ?st =
      usersLoop (pgRepos healthy) 1000 (\<lambda>n. False) (makeHeaderMap userHeader)
        (map (readRecord (length userHeader)) []) ?st"
    by blast
  then have skip: "usersLoop (pgRepos healthy) 1000 (\<lambda>n. False) (makeHeaderMap userHeader)
        (map (readRecord (length userHeader)) [Row shortRow]) ?st = Continue ?st"
    by simp
  from col len field skip show ?thesis by (intro conjI)
qed

subsection \<open>Validation rules\<close>

lemma errorsOn_append: "errorsOn f (xs @ ys) = errorsOn f xs @ errorsOn f ys"
  by (simp add: errorsOn_def)

lemma errorsOn_Cons:
  "errorsOn f (mkError g m v # xs) =
     (if g = f then mkError g m v # errorsOn f xs else errorsOn f xs)"
  by (simp add: errorsOn_def mkError_def)

lemma errorsOn_Nil: "errorsOn f [] = []"
  by (simp add: errorsOn_def)

lemmas errorsOn_simps = errorsOn_append errorsOn_Cons errorsOn_Nil

text \<open>
  Claim C7, as stated: an article with status \<^verbatim>\<open>draft\<close> and any non-empty
  \<^verbatim>\<open>published_at\<close> gets exactly one error on the field \<^verbatim>\<open>published_at\<close>. The
  format check of \<^verbatim>\<open>published_at\<close> runs whatever the status is, so a draft whose
  \<^verbatim>\<open>published_at\<close> is no RFC 3339 instant gets two errors on that field.
\<close>

theorem ValidateArticle_draft_two_errors:
  "length (errorsOn ''published_at''
     (ValidateArticle NewValidator
        \<lparr>art_ID = ''550e8400-e29b-41d4-a716-446655440000'', art_Slug = ''my-first-article'',
         art_Title = ''My First Article'', art_Body = ''This is the body'',
         art_AuthorID = ''550e8400-e29b-41d4-a716-446655440001'', art_Tags = [],
         art_Status = ''draft'', art_PublishedAt = ''tomorrow''\<rparr> 1)) = 2"
  by (simp add: ValidateArticle_def errorsOn_simps parseRFC3339_def)

text \<open>
  Claim C7, amended: for every article with status \<^verbatim>\<open>draft\<close> and a non-empty
  \<^verbatim>\<open>published_at\<close>, the errors on the field \<^verbatim>\<open>published_at\<close> start with the error
  \<^verbatim>\<open>draft articles must not have published_at\<close>; it is the only one when the value
  parses as an RFC 3339 instant, and is followed by the error
  \<^verbatim>\<open>invalid ISO 8601 date format\<close> when it does not.
\<close>

theorem ValidateArticle_draft_published_at:
  "art_Status article = ''draft'' \<Longrightarrow> art_PublishedAt article \<noteq> [] \<Longrightarrow>
   errorsOn ''published_at'' (ValidateArticle v article n) =
     mkError ''published_at'' ''draft articles must not have published_at'' None #
     (if parseRFC3339 (art_PublishedAt article) then []
      else [mkError ''published_at'' ''invalid ISO 8601 date format''
              (Some (art_PublishedAt article))])"
  by (simp add: ValidateArticle_def errorsOn_simps)

theorem ValidateArticle_draft_published_at_witness:
  "errorsOn ''published_at''
     (ValidateArticle NewValidator
        \<lparr>art_ID = ''550e8400-e29b-41d4-a716-446655440000'', art_Slug = ''my-first-article'',
         art_Title = ''My First Article'', art_Body = ''This is the body'',
         art_AuthorID = ''550e8400-e29b-41d4-a716-446655440001'', art_Tags = [],
         art_Status = ''draft'', art_PublishedAt = ''2024-01-01T00:00:00Z''\<rparr> 1) =
   [mkError ''published_at'' ''draft articles must not have published_at'' None]"
  using ValidateArticle_draft_published_at
    [of "\<lparr>art_ID = ''550e8400-e29b-41d4-a716-446655440000'', art_Slug = ''my-first-article'',
          art_Title = ''My First Article'', art_Body = ''This is the body'',
          art_AuthorID = ''550e8400-e29b-41d4-a716-446655440001'', art_Tags = [],
          art_Status = ''draft'', art_PublishedAt = ''2024-01-01T00:00:00Z''\<rparr>"
        NewValidator 1]
  by (simp add: parseRFC3339_def isDigit_def num2_def num4_def daysIn_def validOffset_def)

text \<open>
  Claim C10. A comment whose id starts with \<^verbatim>\<open>cm_\<close> gets no error on the field
  \<^verbatim>\<open>id\<close>, whatever follows the prefix; the bare id \<^verbatim>\<open>cm_\<close> is accepted too.
\<close>

theorem ValidateComment_cm_prefix:
  "HasPrefix (cm_ID comment) ''cm_'' \<Longrightarrow>
   errorsOn ''id'' (ValidateComment v comment n) = []"
  by (auto simp add: ValidateComment_def errorsOn_simps HasPrefix_def)

theorem ValidateComment_cm_prefix_witness:
  "HasPrefix ''cm_'' ''cm_'' \<and>
   errorsOn ''id''
     (ValidateComment NewValidator
        \<lparr>cm_ID = ''cm_'', cm_ArticleID = ''550e8400-e29b-41d4-a716-446655440001'',
         cm_UserID = ''550e8400-e29b-41d4-a716-446655440002'', cm_Body = ''Great article'',
         cm_CreatedAt = ''2024-01-01T00:00:00Z''\<rparr> 1) = []"
  using ValidateComment_cm_prefix
    [of "\<lparr>cm_ID = ''cm_'', cm_ArticleID = ''550e8400-e29b-41d4-a716-446655440001'',
          cm_UserID = ''550e8400-e29b-41d4-a716-446655440002'', cm_Body = ''Great article'',
          cm_CreatedAt = ''2024-01-01T00:00:00Z''\<rparr>" NewValidator 1]
  by (simp add: HasPrefix_def)


subsection \<open>Foreign-key caches\<close>









subsection \<open>Bulk insert\<close>

lemma acceptedRows_none_failed:
  "\<not> list_ex fails [i..<i + length rows] \<Longrightarrow> acceptedRows fails i rows = rows"
proof (induction rows arbitrary: i)
  case Nil
  show ?case by simp
next
  case (Cons r rs)
  have split: "[i..<i + length (r # rs)] = i # [Suc i..<Suc i + length rs]"
    by (simp add: upt_rec)
  from Cons.prems have "\<not> fails i" and "\<not> list_ex fails [Suc i..<Suc i + length rs]"
    unfolding split by simp_all
  with Cons.IH [of "Suc i"] show ?case by simp
qed

lemma acceptedRows_unbroken:
  "\<not> copyBroken db (length rows) \<Longrightarrow> acceptedRows (rowFails db) 0 rows = rows"
  using acceptedRows_none_failed [of "rowFails db" 0 rows] by (simp add: copyBroken_def)

lemma BatchInsert_cases:
  "BatchInsert db table rows = ((int (length rows), None), table @ rows) \<or>
   (rows \<noteq> [] \<and> (\<exists>e. BatchInsert db table rows = ((0, Some e), table)))"
proof (cases "copyBroken db (length rows)")
  case True
  then show ?thesis
    by (simp add: BatchInsert_def Let_def)
next
  case False
  from acceptedRows_unbroken [OF False] False show ?thesis
    by (simp add: BatchInsert_def Let_def)
qed

text \<open>
  Claim C2. For every non-empty batch, \<^verbatim>\<open>BatchInsert\<close> is all-or-nothing: a call
  that returns without error reports the length of the batch and has inserted the whole
  batch, and a call that returns an error reports 0 and has inserted no record of the
  batch.
\<close>

theorem BatchInsert_all_or_nothing:
  assumes "rows \<noteq> []" and "BatchInsert db table rows = ((n, err), table')"
  shows "(err = None \<longrightarrow> n = int (length rows) \<and> table' = table @ rows) \<and>
         (err \<noteq> None \<longrightarrow> n = 0 \<and> table' = table)"
  using BatchInsert_cases [of db table rows] assms by auto

theorem BatchInsert_all_or_nothing_witness:
  "[''u1'', ''u2''] \<noteq> [] \<and>
   BatchInsert healthy [''u0''] [''u1'', ''u2''] = ((2, None), [''u0'', ''u1'', ''u2'']) \<and>
   (2::int) = int (length [''u1'', ''u2'']) \<and>
   BatchInsert (healthy\<lparr>rowFails := (\<lambda>i. i = 1)\<rparr>) [''u0''] [''u1'', ''u2''] =
     ((0, Some ErrCopy), [''u0''])"
proof -
  have a: "BatchInsert healthy [''u0''] [''u1'', ''u2''] = ((2, None), [''u0'', ''u1'', ''u2''])"
    by code_simp
  have b: "BatchInsert (healthy\<lparr>rowFails := (\<lambda>i. i = 1)\<rparr>) [''u0''] [''u1'', ''u2''] =
             ((0, Some ErrCopy), [''u0''])"
    by code_simp
  have ne: "[''u1'', ''u2''] \<noteq> []" by simp
  from BatchInsert_all_or_nothing [OF ne a] have c: "(2::int) = int (length [''u1'', ''u2''])"
    by blast
  from ne a c b show ?thesis by (intro conjI)
qed

subsection \<open>Counters and stored errors\<close>



























lemma TrimSpace_Nil: "TrimSpace [] = []"
  by (simp add: TrimSpace_def TrimRight_def TrimLeft_def trimRunes.simps leadingRune_def
      HasPrefix_def spaceRunes_def)

lemma blank_step:
  "ndjsonStep repos ld bs done [] st = Continue (st\<lparr>lineNum := lineNum st + 1\<rparr>)"
  by (simp add: ndjsonStep_def TrimSpace_Nil)

lemma blank_lines:
  "ndjsonLoop repos ld bs done (replicate n [] @ rest) st =
     ndjsonLoop repos ld bs done rest (st\<lparr>lineNum := lineNum st + int n\<rparr>)"
proof (induction n arbitrary: st)
  case 0
  show ?case by simp
next
  case (Suc n)
  have "ndjsonLoop repos ld bs done (replicate (Suc n) [] @ rest) st =
        ndjsonLoop repos ld bs done (replicate n [] @ rest) (st\<lparr>lineNum := lineNum st + 1\<rparr>)"
    by (simp add: blank_step)
  also have "\<dots> = ndjsonLoop repos ld bs done rest
                     (st\<lparr>lineNum := lineNum st + 1, lineNum := lineNum st + 1 + int n\<rparr>)"
    using Suc.IH [of "st\<lparr>lineNum := lineNum st + 1\<rparr>"] by simp
  finally show ?case by (simp add: add.assoc)
qed

lemma first_line:
  "ndjsonStep (pgRepos healthy) (articleLoader (pgRepos healthy) decodeEmptyObject) 1000
     (\<lambda>n. 10000 \<le> n) ''{}''
     (newRun ((newJob ''j1'' ''articles'' [] ''/tmp/a.ndjson'')\<lparr>Status := JobStatusProcessing\<rparr>)
        (articlesValidator []) 0 emptyWorld) = Continue afterFirstLine"
  by code_simp

lemma last_line:
  "ndjsonStep (pgRepos healthy) (articleLoader (pgRepos healthy) decodeEmptyObject) 1000
     (\<lambda>n. 10000 \<le> n) ''{}'' (afterFirstLine\<lparr>lineNum := 9999\<rparr>) =
   Return (Some ErrContextCanceled)
     (afterFirstLine\<lparr>lineNum := 10000,
        job := (job afterFirstLine)\<lparr>TotalRecords := 2\<rparr>\<rparr>)"
  by code_simp


lemma no_ids: "User_GetAllIDs (pgRepos healthy) emptyWorld = []"
  by (simp add: pgRepos_def GetAllIDs_def emptyWorld_def)

lemma line_9999: "afterFirstLine\<lparr>lineNum := lineNum afterFirstLine + int 9998\<rparr> =
    afterFirstLine\<lparr>lineNum := 9999\<rparr>"
  by (simp add: afterFirstLine_def)

lemma cancelled_loop:
  "ndjsonLoop (pgRepos healthy) (articleLoader (pgRepos healthy) decodeEmptyObject) 1000
     (\<lambda>n. 10000 \<le> n) (''{}'' # replicate 9998 [] @ [''{}''])
     (newRun ((newJob ''j1'' ''articles'' [] ''/tmp/a.ndjson'')\<lparr>Status := JobStatusProcessing\<rparr>)
        (articlesValidator []) 0 emptyWorld) =
   Return (Some ErrContextCanceled)
     (afterFirstLine\<lparr>lineNum := 10000,
        job := (job afterFirstLine)\<lparr>TotalRecords := 2\<rparr>\<rparr>)"
proof -
  let ?loop = "ndjsonLoop (pgRepos healthy)
                 (articleLoader (pgRepos healthy) decodeEmptyObject) 1000 (\<lambda>n. 10000 \<le> n)"
  have "?loop (''{}'' # replicate 9998 [] @ [''{}''])
          (newRun ((newJob ''j1'' ''articles'' [] ''/tmp/a.ndjson'')
                     \<lparr>Status := JobStatusProcessing\<rparr>)
             (articlesValidator []) 0 emptyWorld) =
        ?loop (replicate 9998 [] @ [''{}'']) afterFirstLine"
    by (simp only: ndjsonLoop.simps first_line step.case)
  also have "\<dots> = ?loop [''{}''] (afterFirstLine\<lparr>lineNum := 9999\<rparr>)"
    by (simp only: blank_lines line_9999)
  also have "\<dots> = Return (Some ErrContextCanceled)
                     (afterFirstLine\<lparr>lineNum := 10000,
                        job := (job afterFirstLine)\<lparr>TotalRecords := 2\<rparr>\<rparr>)"
    by (simp only: ndjsonLoop.simps last_line step.case)
  finally show ?thesis .
qed

text \<open>
  Claim C3, on an articles file whose first line is the empty object (it fails
  validation with five errors), followed by 9998 blank lines and one more object, with
  the context done when the pipeline looks at it on line 10000: the pipeline returns at
  the checkpoint without flushing the error buffer. The job ends as failed with one
  failed record, and the error store holds no error for line 1.
\<close>

theorem cancel_drops_buffered_errors:
  "ProcessImport (pgRepos healthy) (sampleEnv (\<lambda>n. 10000 \<le> n)) (Inr cancelledArticles)
     (newJob ''j1'' ''articles'' [] ''/tmp/a.ndjson'') emptyWorld =
   Inr (Some ErrContextCanceled,
        \<lparr>job_ID = ''j1'', job_Type = JobTypeImport, Resource = ''articles'',
         Status = JobStatusFailed, IdempotencyKey = [], TotalRecords = 2,
         ProcessedCount = 1, SuccessfulCount = 0, FailedCount = 1,
         FilePath = ''/tmp/a.ndjson''\<rparr>,
        \<lparr>usersTable = [], articlesTable = [], commentsTable = [], jobErrors = []\<rparr>)"
proof -
  have res: "Resource ((newJob ''j1'' ''articles'' [] ''/tmp/a.ndjson'')
               \<lparr>Status := JobStatusProcessing\<rparr>) = ''articles''"
    by (simp add: newJob_def)
  have run: "processArticlesNDJSON (pgRepos healthy) decodeEmptyObject 1000 (\<lambda>n. 10000 \<le> n) []
               (Inr (''{}'' # replicate 9998 [] @ [''{}''], None))
               ((newJob ''j1'' ''articles'' [] ''/tmp/a.ndjson'')\<lparr>Status := JobStatusProcessing\<rparr>)
               emptyWorld =
             Inr (Some ErrContextCanceled,
                  (job afterFirstLine)\<lparr>TotalRecords := 2\<rparr>, emptyWorld)"
    unfolding processArticlesNDJSON_def processNDJSON_def
    by (simp only: sum.case prod.case cancelled_loop step.case)
       (simp add: afterFirstLine_def)
  show ?thesis
    unfolding ProcessImport_def Let_def
    by (simp only: res no_ids sampleEnv_def cancelledArticles_def Env.simps StagedFile.simps
          sum.case run prod.case)
       (simp add: afterFirstLine_def newJob_def emptyWorld_def)
qed


subsection \<open>The import endpoint\<close>

lemma JobCreate_cases:
  "JobCreate db table j = Inr table' \<Longrightarrow>
   table' = table @ [j] \<and>
   (IdempotencyKey j = [] \<or> \<not> list_ex (\<lambda>j'. IdempotencyKey j' = IdempotencyKey j) table)"
  by (simp add: JobCreate_def split: if_splits)

lemma stageAndCreate_jobs:
  "jobs (snd (stageAndCreate env resource key header ext srv)) = jobs srv \<or>
   (jobs (snd (stageAndCreate env resource key header ext srv)) =
      jobs srv @ [newJob (newJobID env) resource key
                    (joinPath env (UploadDir env)
                       (resource @ ''_'' @ newFileTag env @ ext))] \<and>
    (key = [] \<or> \<not> list_ex (\<lambda>j'. IdempotencyKey j' = key) (jobs srv)))"
proof (cases "mkdirFails env \<or> createFileFails env \<or> copyFileFails env")
  case True
  then show ?thesis by (auto simp: stageAndCreate_def Let_def)
next
  case False
  let ?path = "joinPath env (UploadDir env) (resource @ ''_'' @ newFileTag env @ ext)"
  let ?j = "newJob (newJobID env) resource key ?path"
  show ?thesis
  proof (cases "JobCreate (createDb env) (jobs srv) ?j")
    case (Inl e)
    with False show ?thesis
      by (simp add: stageAndCreate_def CreateImportJob_def Let_def newJob_def)
  next
    case (Inr table')
    from JobCreate_cases [OF Inr] have "table' = jobs srv @ [?j]"
      and "key = [] \<or> \<not> list_ex (\<lambda>j'. IdempotencyKey j' = key) (jobs srv)"
      by (simp_all add: newJob_def)
    with False Inr show ?thesis
      by (simp add: stageAndCreate_def CreateImportJob_def Let_def newJob_def)
  qed
qed

lemma checkUpload_cases:
  "snd (checkUpload env resource key upload jsonOk srv) = srv \<or>
   (\<exists>header ext. checkUpload env resource key upload jsonOk srv =
      stageAndCreate env resource key header ext srv)"
proof (cases upload)
  case None
  then show ?thesis by (simp add: checkUpload_def)
next
  case (Some header)
  show ?thesis
  proof (cases "checkUpload env resource key upload jsonOk srv =
      stageAndCreate env resource key header (ToLower (Ext (up_Filename header))) srv")
    case True
    then show ?thesis by blast
  next
    case False
    then have "snd (checkUpload env resource key upload jsonOk srv) = srv"
      unfolding checkUpload_def Let_def Some option.case
      by (simp only: split: if_splits) simp_all
    then show ?thesis by blast
  qed
qed

lemma CreateImport_cases:
  "snd (CreateImport env req srv) = srv \<or>
   (\<exists>resource header ext.
      CreateImport env req srv =
        stageAndCreate env resource (hdr_IdempotencyKey req) header ext srv)"
proof -
  let ?R = "if form_resource req = [] then query_resource req else form_resource req"
  have "CreateImport env req srv = ((200, JobJSON (the (if hdr_IdempotencyKey req \<noteq> []
             then (case GetByIdempotencyKey (lookupDb env) (jobs srv) (hdr_IdempotencyKey req) of
                     Inl e \<Rightarrow> None
                   | Inr found \<Rightarrow> found)
             else None))), srv) \<or>
        CreateImport env req srv =
          checkUpload env ?R (hdr_IdempotencyKey req) (form_file req) (json_body_ok req) srv"
    unfolding CreateImport_def Let_def by (simp only: split: option.split) simp
  with checkUpload_cases [of env ?R "hdr_IdempotencyKey req" "form_file req" "json_body_ok req" srv]
  show ?thesis by (metis snd_conv)
qed

lemma CreateImport_jobs:
  "jobs (snd (CreateImport env req srv)) = jobs srv \<or>
   (\<exists>j. jobs (snd (CreateImport env req srv)) = jobs srv @ [j] \<and>
        IdempotencyKey j = hdr_IdempotencyKey req \<and>
        (hdr_IdempotencyKey req = [] \<or>
         \<not> list_ex (\<lambda>j'. IdempotencyKey j' = hdr_IdempotencyKey req) (jobs srv)))"
proof -
  from CreateImport_cases [of env req srv] show ?thesis
  proof
    assume "snd (CreateImport env req srv) = srv"
    then show ?thesis by simp
  next
    assume "\<exists>resource header ext. CreateImport env req srv =
              stageAndCreate env resource (hdr_IdempotencyKey req) header ext srv"
    then obtain resource header ext where
      eq: "CreateImport env req srv =
             stageAndCreate env resource (hdr_IdempotencyKey req) header ext srv"
      by blast
    from stageAndCreate_jobs [of env resource "hdr_IdempotencyKey req" header ext srv]
    show ?thesis unfolding eq by (auto simp: newJob_def)
  qed
qed

lemma CreateImport_found:
  "hdr_IdempotencyKey req \<noteq> [] \<Longrightarrow>
   GetByIdempotencyKey (lookupDb env) (jobs srv) (hdr_IdempotencyKey req) = Inr (Some j) \<Longrightarrow>
   CreateImport env req srv = ((200, JobJSON j), srv)"
  by (simp add: CreateImport_def Let_def)

lemma CreateImport_lookup_failed:
  "GetByIdempotencyKey (lookupDb env) (jobs srv) (hdr_IdempotencyKey req) = Inl e \<Longrightarrow>
   CreateImport env req srv =
     checkUpload env
       (if form_resource req = [] then query_resource req else form_resource req)
       (hdr_IdempotencyKey req) (form_file req) (json_body_ok req) srv"
  by (simp add: CreateImport_def Let_def)

lemma first_submission:
  "CreateImport sampleHandlerEnv retryRequest \<lparr>jobs = [], files = []\<rparr> =
   ((202, AcceptedJSON ''33333333-3333-3333-3333-333333333333'' JobStatusPending ''articles''
            ''Import job created and queued for processing''),
    \<lparr>jobs = [newJob ''33333333-3333-3333-3333-333333333333'' ''articles'' ''key-1''
               ''/tmp/uploads/articles_0a1b2c3d.ndjson''],
     files = [(''/tmp/uploads/articles_0a1b2c3d.ndjson'', ''{}'' @ [CHR 0x0A])]\<rparr>)"
  by code_simp

lemma second_lookup:
  "GetByIdempotencyKey (lookupDb sampleHandlerEnv)
     [newJob ''33333333-3333-3333-3333-333333333333'' ''articles'' ''key-1''
        ''/tmp/uploads/articles_0a1b2c3d.ndjson'']
     (hdr_IdempotencyKey retryRequest) =
   Inr (Some (newJob ''33333333-3333-3333-3333-333333333333'' ''articles'' ''key-1''
                ''/tmp/uploads/articles_0a1b2c3d.ndjson''))"
  by code_simp

text \<open>
  Claim C4, as stated: when a job with the key of the request exists, the request
  neither stages a file nor creates a job. The handler logs a failed lookup and goes on
  as if there were no such job: with the job of key \<^verbatim>\<open>key-1\<close> in the table and a
  lookup that fails, the upload is saved in the upload directory, and only the unique
  constraint of the table refuses the second job.
\<close>

theorem retry_after_failed_lookup_stages_file:
  "CreateImport (sampleHandlerEnv\<lparr>lookupDb := healthy\<lparr>queryFails := True\<rparr>\<rparr>) retryRequest
     \<lparr>jobs = [firstJob], files = []\<rparr> =
   ((500, ErrorJSON ''failed to create import job''),
    \<lparr>jobs = [firstJob],
     files = [(''/tmp/uploads/articles_0a1b2c3d.ndjson'', ''{}'' @ [CHR 0x0A])]\<rparr>)"
  by code_simp

text \<open>
  Claim C4, amended: two submissions that carry the same non-empty key, one after the
  other, add at most one job to the table, whatever the database and the file system
  answer; and when the lookup of the second submission finds a job with that key, the
  second submission is answered with status 200 and that job, and leaves the table of
  jobs and the upload directory as they were.
\<close>

theorem CreateImport_idempotent:
  assumes key: "hdr_IdempotencyKey req1 \<noteq> []"
    and same: "hdr_IdempotencyKey req2 = hdr_IdempotencyKey req1"
  shows "length (jobs (snd (CreateImport env2 req2 (snd (CreateImport env1 req1 srv))))) \<le>
           Suc (length (jobs srv)) \<and>
         (\<forall>j. GetByIdempotencyKey (lookupDb env2) (jobs (snd (CreateImport env1 req1 srv)))
                (hdr_IdempotencyKey req2) = Inr (Some j) \<longrightarrow>
              CreateImport env2 req2 (snd (CreateImport env1 req1 srv)) =
                ((200, JobJSON j), snd (CreateImport env1 req1 srv)))"
proof
  let ?s1 = "snd (CreateImport env1 req1 srv)"
  let ?s2 = "snd (CreateImport env2 req2 ?s1)"
  let ?k = "hdr_IdempotencyKey req1"
  from CreateImport_jobs [of env1 req1 srv]
  show "length (jobs ?s2) \<le> Suc (length (jobs srv))"
  proof
    assume first: "jobs ?s1 = jobs srv"
    from CreateImport_jobs [of env2 req2 ?s1] have "length (jobs ?s2) \<le> Suc (length (jobs ?s1))"
      by auto
    with first show ?thesis by simp
  next
    assume "\<exists>j. jobs ?s1 = jobs srv @ [j] \<and> IdempotencyKey j = ?k \<and>
              (?k = [] \<or> \<not> list_ex (\<lambda>j'. IdempotencyKey j' = ?k) (jobs srv))"
    then obtain j where first: "jobs ?s1 = jobs srv @ [j]" and kj: "IdempotencyKey j = ?k"
      by blast
    from first kj have taken: "list_ex (\<lambda>j'. IdempotencyKey j' = ?k) (jobs ?s1)"
      by (simp add: list_ex_iff)
    from CreateImport_jobs [of env2 req2 ?s1] key same taken have "jobs ?s2 = jobs ?s1"
      by auto
    with first show ?thesis by simp
  qed
next
  from key same have "hdr_IdempotencyKey req2 \<noteq> []" by simp
  then show "\<forall>j. GetByIdempotencyKey (lookupDb env2) (jobs (snd (CreateImport env1 req1 srv)))
                (hdr_IdempotencyKey req2) = Inr (Some j) \<longrightarrow>
              CreateImport env2 req2 (snd (CreateImport env1 req1 srv)) =
                ((200, JobJSON j), snd (CreateImport env1 req1 srv))"
    by (simp add: CreateImport_found)
qed

theorem CreateImport_idempotent_witness:
  "hdr_IdempotencyKey retryRequest \<noteq> [] \<and>
   CreateImport sampleHandlerEnv retryRequest
     (snd (CreateImport sampleHandlerEnv retryRequest \<lparr>jobs = [], files = []\<rparr>)) =
   ((200, JobJSON (newJob ''33333333-3333-3333-3333-333333333333'' ''articles'' ''key-1''
                     ''/tmp/uploads/articles_0a1b2c3d.ndjson'')),
    snd (CreateImport sampleHandlerEnv retryRequest \<lparr>jobs = [], files = []\<rparr>))"
proof -
  have key: "hdr_IdempotencyKey retryRequest \<noteq> []"
    by (simp add: retryRequest_def)
  have found: "GetByIdempotencyKey (lookupDb sampleHandlerEnv)
       (jobs (snd (CreateImport sampleHandlerEnv retryRequest \<lparr>jobs = [], files = []\<rparr>)))
       (hdr_IdempotencyKey retryRequest) =
     Inr (Some (newJob ''33333333-3333-3333-3333-333333333333'' ''articles'' ''key-1''
                  ''/tmp/uploads/articles_0a1b2c3d.ndjson''))"
    by (simp only: first_submission snd_conv Server.simps second_lookup)
  from CreateImport_idempotent [OF key refl, of sampleHandlerEnv sampleHandlerEnv
         "\<lparr>jobs = [], files = []\<rparr>"] found
  have "CreateImport sampleHandlerEnv retryRequest
     (snd (CreateImport sampleHandlerEnv retryRequest \<lparr>jobs = [], files = []\<rparr>)) =
   ((200, JobJSON (newJob ''33333333-3333-3333-3333-333333333333'' ''articles'' ''key-1''
                     ''/tmp/uploads/articles_0a1b2c3d.ndjson'')),
    snd (CreateImport sampleHandlerEnv retryRequest \<lparr>jobs = [], files = []\<rparr>))"
    by blast
  with key show ?thesis by (intro conjI)
qed

lemma writeNDJSON_filename: "dl_filename (writeNDJSON marshal xs d) = dl_filename d"
  by (induction xs arbitrary: d) (auto split: sum.splits)

lemma streamUsersNDJSON_filename:
  "dl_filename (streamUsersNDJSON db marshal users) = ''users.ndjson''"
  by (simp add: streamUsersNDJSON_def Let_def writeNDJSON_filename)

lemma ext_ndjson: "ToLower (Ext ''users.ndjson'') = ''.ndjson''"
  by code_simp

text \<open>
  Claim C5, as stated: the NDJSON export of the users, imported as a users import into a
  fresh store, gives as many successful records as were exported. The handler accepts
  only a \<^verbatim>\<open>.csv\<close> file for users: the export of one user, \<^verbatim>\<open>users.ndjson\<close>, is
  answered with status 400 and no job is created.
\<close>

theorem users_ndjson_round_trip_refused:
  "dl_count (streamUsersNDJSON healthy sampleMarshal [sampleUser]) = 1 \<and>
   CreateImport sampleHandlerEnv
     (submitExport [] ''users'' (streamUsersNDJSON healthy sampleMarshal [sampleUser]))
     \<lparr>jobs = [], files = []\<rparr> =
   ((400, ErrorJSON ''users import requires CSV file''), \<lparr>jobs = [], files = []\<rparr>)"
  by code_simp

text \<open>
  Claim C5, amended: for every list of stored users, the NDJSON export of the users,
  submitted as a users import to a store without jobs, is refused with status 400
  (\<^verbatim>\<open>users import requires CSV file\<close>, or \<^verbatim>\<open>file too large\<close> when it exceeds the
  upload limit); no file is staged and no job is created, so no record is imported.
\<close>

theorem users_ndjson_export_rejected:
  "CreateImport env (submitExport key ''users'' (streamUsersNDJSON db marshal users))
     \<lparr>jobs = [], files = fs\<rparr> =
   ((400,
     ErrorJSON
       (if MaxUploadSize env < int (length (dl_body (streamUsersNDJSON db marshal users)))
        then ''file too large, max size is '' @
             itoaInt (goDiv (MaxUploadSize env) (1024 * 1024)) @ '' MB''
        else ''users import requires CSV file'')),
    \<lparr>jobs = [], files = fs\<rparr>)"
  by (simp add: CreateImport_def checkUpload_def submitExport_def Let_def
      GetByIdempotencyKey_def streamUsersNDJSON_filename ext_ndjson)



subsection \<open>Worker pool\<close>

text \<open>
  The capacity of the semaphore is the number of CPUs times four, clamped to the range
  from 4 to 32. A job that one call of \<^verbatim>\<open>MarkJobAsProcessing\<close> has claimed is claimed
  by no later call.
\<close>

lemma maxWorkers_clamp: "maxWorkers numCPU = max 4 (min 32 (4 * numCPU))"
  by (simp add: maxWorkers_def Let_def max_def min_def)

lemma MarkJobAsProcessing_no_pending:
  "\<not> queryFails db \<Longrightarrow>
   \<not> list_ex (\<lambda>j. job_ID j = jobID \<and> Status j = JobStatusPending)
       (snd (MarkJobAsProcessing db table jobID))"
  by (induction table) (auto simp: MarkJobAsProcessing_def)

lemma MarkJobAsProcessing_once:
  "\<not> queryFails db \<Longrightarrow>
   fst (fst (MarkJobAsProcessing db' (snd (MarkJobAsProcessing db table jobID)) jobID)) = False"
  using MarkJobAsProcessing_no_pending [of db jobID table]
  by (simp add: MarkJobAsProcessing_def)

end
